theory Spec2Isabelle
  imports Main "HOL-Library.Monad_Syntax"
begin

section \<open>Strings of the stack: literals and deploy-time tokens\<close>

text \<open>
  The stack of \<^verbatim>\<open>open_search_workflow.py\<close> is assembled from Python strings. Some are
  known when the program runs (\<^verbatim>\<open>stack_name\<close>, the prefixes); others are tokens that
  stand for a value the deployment assigns later (a bucket name, a queue URL, a state
  machine ARN). A string is therefore a tree of literals, tokens, concatenations (the
  f-strings of the source) and the two CloudFormation intrinsics the source applies,
  \<^verbatim>\<open>Fn.split\<close> and \<^verbatim>\<open>Fn.join\<close>.
\<close>

datatype tstr =
    Lit string
  | Attr string string
  | Cat tstr tstr
  | Join string tstrs
and tstrs =
    Split string tstr

text \<open>An f-string: its parts in order.\<close>

fun fstring :: "tstr list \<Rightarrow> tstr" where
  "fstring [] = Lit []"
| "fstring [p] = p"
| "fstring (p # q # ps) = Cat p (fstring (q # ps))"

subsection \<open>\<^verbatim>\<open>Fn.split\<close> and \<^verbatim>\<open>Fn.join\<close> on resolved strings\<close>

text \<open>
  \<^verbatim>\<open>Fn.split(d, s)\<close> cuts \<open>s\<close> at every occurrence of the delimiter \<open>d\<close>;
  \<^verbatim>\<open>Fn.join(d, xs)\<close> puts \<open>d\<close> between the elements of \<open>xs\<close>. The cutting is
  \<open>split_string\<close>, whose accumulator holds the current piece, reversed.
\<close>

function split_string :: "string \<Rightarrow> string \<Rightarrow> string \<Rightarrow> string list" where
  "split_string d acc [] = [rev acc]"
| "split_string d acc (c # cs) =
     (if d \<noteq> [] \<and> take (length d) (c # cs) = d
      then rev acc # split_string d [] (drop (length d) (c # cs))
      else split_string d (c # acc) cs)"
  by pat_completeness auto
termination
  by (relation "measure (\<lambda>(d, acc, s). length s)") auto

definition Fn_split :: "string \<Rightarrow> string \<Rightarrow> string list" where
  "Fn_split d s = split_string d [] s"

fun Fn_join :: "string \<Rightarrow> string list \<Rightarrow> string" where
  "Fn_join d [] = []"
| "Fn_join d [x] = x"
| "Fn_join d (x # y # ys) = x @ d @ Fn_join d (y # ys)"

subsection \<open>Resolution at deployment\<close>

text \<open>
  A deployment assigns a string to every attribute token; \<open>resolve\<close> computes the string a
  token tree stands for under such an assignment.
\<close>

type_synonym deployment = "string \<Rightarrow> string \<Rightarrow> string"

primrec resolve :: "deployment \<Rightarrow> tstr \<Rightarrow> string"
  and resolve_list :: "deployment \<Rightarrow> tstrs \<Rightarrow> string list" where
  "resolve \<rho> (Lit s) = s"
| "resolve \<rho> (Attr c a) = \<rho> c a"
| "resolve \<rho> (Cat x y) = resolve \<rho> x @ resolve \<rho> y"
| "resolve \<rho> (Join d xs) = Fn_join d (resolve_list \<rho> xs)"
| "resolve_list \<rho> (Split d x) = Fn_split d (resolve \<rho> x)"

subsection \<open>The Python string operations of line 167\<close>

text \<open>
  \<^verbatim>\<open>re.sub("[^a-zA-Z0-9-]", "", s)\<close> deletes every character outside the class;
  \<^verbatim>\<open>.lower()\<close> maps upper-case letters to lower case (for the 8-bit characters of
  \<^typ>\<open>char\<close>: A-Z, and the Latin-1 capitals 192-222 except the multiplication sign 215);
  \<^verbatim>\<open>[:30]\<close> keeps at most the first 30 characters.
\<close>

definition in_class :: "char \<Rightarrow> bool" where
  "in_class c = (let n = (of_char c :: nat) in
     (97 \<le> n \<and> n \<le> 122) \<or> (65 \<le> n \<and> n \<le> 90) \<or> (48 \<le> n \<and> n \<le> 57) \<or> n = 45)"

definition re_sub_delete :: "string \<Rightarrow> string" where
  "re_sub_delete s = filter in_class s"

definition lower_char :: "char \<Rightarrow> char" where
  "lower_char c = (let n = (of_char c :: nat) in
     if (65 \<le> n \<and> n \<le> 90) \<or> (192 \<le> n \<and> n \<le> 222 \<and> n \<noteq> 215)
     then char_of (n + 32) else c)"

definition lower :: "string \<Rightarrow> string" where
  "lower s = map lower_char s"

definition cognito_stack_name :: "string \<Rightarrow> string" where
  "cognito_stack_name stack_name = take 30 (lower (re_sub_delete stack_name))"

text \<open>The characters \<^verbatim>\<open>[a-z0-9-]\<close>.\<close>

definition lower_alnum_dash :: "char \<Rightarrow> bool" where
  "lower_alnum_dash c = (let n = (of_char c :: nat) in
     (97 \<le> n \<and> n \<le> 122) \<or> (48 \<le> n \<and> n \<le> 57) \<or> n = 45)"

section \<open>Percent-escaping of the queue URL\<close>

text \<open>
  What the claim about the queue link says in words: every \<^verbatim>\<open>:\<close> becomes
  \<^verbatim>\<open>%3A\<close>, every \<^verbatim>\<open>/\<close> becomes \<^verbatim>\<open>%2F\<close>, every other character stays.
  \<open>unescape\<close> is the decoding of exactly those two escapes, read left to right, and
  \<open>occurs p s\<close> says that \<open>p\<close> is a substring of \<open>s\<close>.
\<close>

definition escape_char :: "char \<Rightarrow> string" where
  "escape_char c = (if c = CHR '':'' then ''%3A'' else if c = CHR ''/'' then ''%2F'' else [c])"

definition escaped :: "string \<Rightarrow> string" where
  "escaped s = concat (map escape_char s)"

function unescape :: "string \<Rightarrow> string" where
  "unescape [] = []"
| "unescape (c # cs) =
     (if take 3 (c # cs) = ''%3A'' then CHR '':'' # unescape (drop 2 cs)
      else if take 3 (c # cs) = ''%2F'' then CHR ''/'' # unescape (drop 2 cs)
      else c # unescape cs)"
  by pat_completeness auto
termination
  by (relation "measure length") auto

fun occurs :: "string \<Rightarrow> string \<Rightarrow> bool" where
  "occurs p [] = (p = [])"
| "occurs p (c # cs) = (take (length p) (c # cs) = p \<or> occurs p cs)"

definition replace_char :: "char \<Rightarrow> string \<Rightarrow> string \<Rightarrow> string" where
  "replace_char c e s = concat (map (\<lambda>x. if x = c then e else [x]) s)"

section \<open>Constructs, and the values the program passes to them\<close>

text \<open>
  Every argument the program passes to a library class is a value of \<open>pyval\<close>: a string
  (\<open>S\<close>), a number (\<open>N\<close>), a boolean (\<open>B\<close>), a named constant of a library such as
  \<^verbatim>\<open>RemovalPolicy.DESTROY\<close> (\<open>E\<close>), a reference to a construct of this stack by its id
  (\<open>R\<close>), a JSONPath expression made by \<^verbatim>\<open>sfn.JsonPath\<close> (\<open>JsonPath\<close>), a list, a
  dict, or an object made by a library call with positional and keyword arguments
  (\<open>Obj\<close>). A construct is a library class instantiated with \<^verbatim>\<open>self\<close> as scope: its
  class, its id and its keyword arguments, in the order of the source.
\<close>

datatype pyval =
    S tstr
  | N int
  | B bool
  | E string
  | R string
  | JsonPath string
  | L "pyval list"
  | D "(string \<times> pyval) list"
  | Obj string "pyval list" "(string \<times> pyval) list"

record construct =
  cls :: string
  cid :: string
  kwargs :: "(string \<times> pyval) list"

definition kwarg :: "construct \<Rightarrow> string \<Rightarrow> pyval option" where
  "kwarg c k = map_of (kwargs c) k"

text \<open>Attributes of a construct that only the deployment knows are tokens.\<close>

definition bucket_name :: "construct \<Rightarrow> tstr" where
  "bucket_name c = Attr (cid c) ''bucket_name''"

definition bucket_arn :: "construct \<Rightarrow> tstr" where
  "bucket_arn c = Attr (cid c) ''bucket_arn''"

definition state_machine_arn :: "construct \<Rightarrow> tstr" where
  "state_machine_arn c = Attr (cid c) ''state_machine_arn''"

definition document_queue_queue_url :: "construct \<Rightarrow> tstr" where
  "document_queue_queue_url c = Attr (cid c) ''document_queue.queue_url''"

definition open_search_domain_attr_domain_endpoint :: "construct \<Rightarrow> tstr" where
  "open_search_domain_attr_domain_endpoint c = Attr (cid c) ''open_search_domain.attr_domain_endpoint''"

definition open_search_domain_domain_name :: "construct \<Rightarrow> tstr" where
  "open_search_domain_domain_name c = Attr (cid c) ''open_search_domain.domain_name''"

definition user_pool_user_pool_id :: "construct \<Rightarrow> tstr" where
  "user_pool_user_pool_id c = Attr (cid c) ''user_pool.user_pool_id''"

definition Aws_STACK_NAME :: tstr where
  "Aws_STACK_NAME = Attr ''Aws'' ''STACK_NAME''"

text \<open>The constants of \<^verbatim>\<open>sfn.JsonPath\<close> the program reads.\<close>

definition JsonPath_string_at :: "string \<Rightarrow> pyval" where
  "JsonPath_string_at path = JsonPath path"

definition JsonPath_task_token :: pyval where
  "JsonPath_task_token = JsonPath ''$$.Task.Token''"

definition JsonPath_entire_payload :: pyval where
  "JsonPath_entire_payload = JsonPath ''$''"

text \<open>\<^verbatim>\<open>os.path.join\<close> of two components, as \<^verbatim>\<open>posixpath\<close> computes it.\<close>

definition os_path_join :: "string \<Rightarrow> string \<Rightarrow> string" where
  "os_path_join a b =
     (if b \<noteq> [] \<and> hd b = CHR ''/'' then b
      else if a = [] \<or> last a = CHR ''/'' then a @ b
      else a @ ''/'' @ b)"

section \<open>The stack as a state, and the library calls that change it\<close>

text \<open>
  The program mutates one object, the stack under construction. Its state is the list of
  constructs instantiated so far, the transitions between workflow states made by
  \<^verbatim>\<open>next\<close>, the iterators attached to Map states, the retry policies and the error
  handlers added to workflow states, and the policy statements added to function roles.
  The program never calls \<^verbatim>\<open>add_catch\<close>, so no operation below writes \<open>catches\<close>.
\<close>

record chain =
  start_state :: string
  end_states :: "string list"

record retry_props =
  max_attempts :: int
  errors :: "string list"

record stack =
  stack_id :: string
  description :: string
  constructs :: "construct list"
  transitions :: "(string \<times> string) list"
  iterators :: "(string \<times> string) list"
  retries :: "(string \<times> retry_props) list"
  catches :: "(string \<times> string) list"
  role_policies :: "(string \<times> pyval) list"

definition Stack_init :: "string \<Rightarrow> string \<Rightarrow> stack" where
  "Stack_init construct_id descr =
     \<lparr>stack_id = construct_id, description = descr, constructs = [], transitions = [],
      iterators = [], retries = [], catches = [], role_policies = []\<rparr>"

text \<open>
  Instantiating a construct registers it under its id; the library raises when the scope
  already has a construct of that id.
\<close>

definition instantiate :: "construct \<Rightarrow> stack \<Rightarrow> stack option" where
  "instantiate c s =
     (if cid c \<in> set (map cid (constructs s)) then None
      else Some (s\<lparr>constructs := constructs s @ [c]\<rparr>))"

text \<open>
  \<^verbatim>\<open>a.next(b)\<close> gives state \<open>a\<close> the successor \<open>b\<close>; the library raises when \<open>a\<close>
  already has one. A chain knows its start state and its end states; a single state is the
  chain that starts and ends with itself. \<^verbatim>\<open>Chain.next\<close> links every end state of the
  chain to the start of the next chainable and returns the chain that starts where the first
  started and ends where the second ends.
\<close>

definition make_next :: "string \<Rightarrow> string \<Rightarrow> stack \<Rightarrow> stack option" where
  "make_next a b s =
     (if a \<in> set (map fst (transitions s)) then None
      else Some (s\<lparr>transitions := transitions s @ [(a, b)]\<rparr>))"

fun make_next_all :: "string list \<Rightarrow> string \<Rightarrow> stack \<Rightarrow> stack option" where
  "make_next_all [] b s = Some s"
| "make_next_all (a # as) b s = do { s' \<leftarrow> make_next a b s; make_next_all as b s' }"

definition chainable :: "construct \<Rightarrow> chain" where
  "chainable c = \<lparr>start_state = cid c, end_states = [cid c]\<rparr>"

definition Chain_start :: "construct \<Rightarrow> chain" where
  "Chain_start c = chainable c"

definition Chain_next :: "chain \<Rightarrow> chain \<Rightarrow> stack \<Rightarrow> (chain \<times> stack) option" where
  "Chain_next c n s = do {
     s' \<leftarrow> make_next_all (end_states c) (start_state n) s;
     Some (\<lparr>start_state = start_state c, end_states = end_states n\<rparr>, s')
   }"

definition State_next :: "construct \<Rightarrow> chain \<Rightarrow> stack \<Rightarrow> (chain \<times> stack) option" where
  "State_next x n s = Chain_next (chainable x) n s"

definition Map_iterator :: "construct \<Rightarrow> chain \<Rightarrow> stack \<Rightarrow> stack" where
  "Map_iterator m c s = s\<lparr>iterators := iterators s @ [(cid m, start_state c)]\<rparr>"

definition add_retry :: "construct \<Rightarrow> retry_props \<Rightarrow> stack \<Rightarrow> stack" where
  "add_retry x r s = s\<lparr>retries := retries s @ [(cid x, r)]\<rparr>"

definition add_to_role_policy :: "construct \<Rightarrow> pyval \<Rightarrow> stack \<Rightarrow> stack" where
  "add_to_role_policy f statement s = s\<lparr>role_policies := role_policies s @ [(cid f, statement)]\<rparr>"

definition chain_value :: "chain \<Rightarrow> pyval" where
  "chain_value c = Obj ''sfn.Chain'' [] [(''start'', R (start_state c)), (''ends'', L (map R (end_states c)))]"

text \<open>
  Following the successors from a state gives the sequence of states a run goes through;
  the number of transitions bounds its length.
\<close>

fun walk :: "nat \<Rightarrow> (string \<times> string) list \<Rightarrow> string \<Rightarrow> string list" where
  "walk 0 ts x = [x]"
| "walk (Suc n) ts x = (case map_of ts x of None \<Rightarrow> [x] | Some y \<Rightarrow> x # walk n ts y)"

definition sequence_from :: "stack \<Rightarrow> string \<Rightarrow> string list" where
  "sequence_from s x = walk (length (transitions s)) (transitions s) x"

section \<open>The program: \<^verbatim>\<open>OpenSearchWorkflow.__init__\<close>\<close>

text \<open>
  What the constructor receives or reads from its environment: the id of the stack, its
  concrete name, its region and account (literals or tokens), the directory of the source
  file, and whether the throttle construct, once built, exposes a document queue.
\<close>

record params =
  construct_id :: string
  stack_name :: string
  current_region :: tstr
  account_id :: tstr
  script_location :: string
  document_queue :: bool

definition s3_upload_prefix :: string where
  "s3_upload_prefix = ''uploads''"

definition s3_output_prefix :: string where
  "s3_output_prefix = ''textract-output''"

definition s3_opensearch_output_prefix :: string where
  "s3_opensearch_output_prefix = ''textract-opensearch-output''"

definition s3_temp_output_prefix :: string where
  "s3_temp_output_prefix = ''textract-temp''"

definition document_bucket :: construct where
  "document_bucket =
     \<lparr>cls = ''s3.Bucket'', cid = ''OpenSearchWorkflowBucket'',
      kwargs = [(''auto_delete_objects'', B True),
               (''removal_policy'', E ''RemovalPolicy.DESTROY'')]\<rparr>"

definition s3_output_bucket :: tstr where
  "s3_output_bucket = bucket_name document_bucket"

definition s3_event_source :: pyval where
  "s3_event_source =
     Obj ''eventsources.S3EventSource'' [R (cid document_bucket)]
       [(''events'', L [E ''s3.EventType.OBJECT_CREATED'']),
        (''filters'', L [Obj ''s3.NotificationKeyFilter'' []
                           [(''prefix'', S (Lit s3_upload_prefix))]])]"

definition workflow_name :: string where
  "workflow_name = ''OpenSearchWorkflow''"

definition decider_task :: construct where
  "decider_task =
     \<lparr>cls = ''tcdk.TextractPOCDecider'', cid = workflow_name @ ''-Decider'',
      kwargs = [(''textract_decider_max_retries'', N 10000)]\<rparr>"

definition document_splitter_task :: construct where
  "document_splitter_task =
     \<lparr>cls = ''tcdk.DocumentSplitter'', cid = ''DocumentSplitter'',
      kwargs = [(''s3_output_bucket'', S s3_output_bucket),
               (''s3_output_prefix'', S (Lit s3_output_prefix)),
               (''max_number_of_pages_per_doc'', N 2500),
               (''lambda_log_level'', S (Lit ''INFO'')),
               (''textract_document_splitter_max_retries'', N 10000)]\<rparr>"

definition textract_async_task :: construct where
  "textract_async_task =
     \<lparr>cls = ''tcdk.TextractGenericAsyncSfnTask'', cid = ''TextractAsync'',
      kwargs = [(''s3_output_bucket'', S s3_output_bucket),
               (''s3_temp_output_prefix'', S (Lit s3_temp_output_prefix)),
               (''textract_async_call_max_retries'', N 50000),
               (''integration_pattern'', E ''sfn.IntegrationPattern.WAIT_FOR_TASK_TOKEN''),
               (''lambda_log_level'', S (Lit ''INFO'')),
               (''timeout'', Obj ''Duration.hours'' [N 24] []),
               (''input'', Obj ''sfn.TaskInput.from_object''
                   [D [(''Token'', JsonPath_task_token),
                       (''ExecutionId'', JsonPath_string_at ''$$.Execution.Id''),
                       (''Payload'', JsonPath_entire_payload)]] []),
               (''result_path'', S (Lit ''$.textract_result''))]\<rparr>"

definition textract_async_to_json :: construct where
  "textract_async_to_json =
     \<lparr>cls = ''tcdk.TextractAsyncToJSON'', cid = ''TextractAsyncToJSON2'',
      kwargs = [(''lambda_log_level'', S (Lit ''INFO'')),
               (''s3_output_prefix'', S (Lit s3_output_prefix)),
               (''s3_output_bucket'', S s3_output_bucket)]\<rparr>"

definition generate_open_search_batch :: construct where
  "generate_open_search_batch =
     \<lparr>cls = ''tcdk.TextractGenerateCSV'', cid = ''GenerateOpenSearchBatch'',
      kwargs = [(''csv_s3_output_bucket'', S (bucket_name document_bucket)),
               (''csv_s3_output_prefix'', S (Lit s3_opensearch_output_prefix)),
               (''lambda_log_level'', S (Lit ''INFO'')),
               (''lambda_memory_mb'', N 10240),
               (''output_type'', S (Lit ''OPENSEARCH_BATCH'')),
               (''opensearch_index_name'', S (Lit ''papers-index'')),
               (''integration_pattern'', E ''sfn.IntegrationPattern.WAIT_FOR_TASK_TOKEN''),
               (''input'', Obj ''sfn.TaskInput.from_object''
                   [D [(''Token'', JsonPath_task_token),
                       (''ExecutionId'', JsonPath_string_at ''$$.Execution.Id''),
                       (''Payload'', JsonPath_entire_payload)]] []),
               (''result_path'', S (Lit ''$.opensearch_output_location''))]\<rparr>"

definition lambda_opensearch_push :: "params \<Rightarrow> construct" where
  "lambda_opensearch_push p =
     \<lparr>cls = ''lambda_.DockerImageFunction'', cid = ''LambdaOpenSearchPush'',
      kwargs = [(''code'', Obj ''lambda_.DockerImageCode.from_image_asset''
                   [S (Lit (os_path_join (script_location p) ''../lambda/opensearch_push/''))] []),
               (''memory_size'', N 10240),
               (''timeout'', Obj ''Duration.seconds'' [N 900] []),
               (''architecture'', E ''lambda_.Architecture.X86_64''),
               (''environment'', D [(''LOG_LEVEL'', S (Lit ''INFO''))])]\<rparr>"

definition lambda_opensearch_push_policy :: pyval where
  "lambda_opensearch_push_policy =
     Obj ''iam.PolicyStatement'' []
       [(''actions'', L [S (Lit ''s3:Get*''), S (Lit ''s3:List*'')]),
        (''resources'', L [S (bucket_arn document_bucket),
                           S (Cat (bucket_arn document_bucket) (Lit ''/*''))])]"

definition task_lambda_opensearch_push :: "params \<Rightarrow> construct" where
  "task_lambda_opensearch_push p =
     \<lparr>cls = ''tasks.LambdaInvoke'', cid = ''OpenSearchPushInvoke'',
      kwargs = [(''lambda_function'', R (cid (lambda_opensearch_push p))),
               (''timeout'', Obj ''Duration.seconds'' [N 900] []),
               (''payload_response_only'', B True),
               (''result_path'', S (Lit ''$.OpenSearchPush''))]\<rparr>"

definition lambda_to_opensearch :: "params \<Rightarrow> construct" where
  "lambda_to_opensearch p =
     \<lparr>cls = ''LambdaToOpenSearch'', cid = ''OpenSearchResources'',
      kwargs = [(''existing_lambda_obj'', R (cid (lambda_opensearch_push p))),
               (''open_search_domain_name'', S (Lit ''idp-cdk-opensearch'')),
               (''cognito_domain_name'',
                  S (fstring [Lit (cognito_stack_name (stack_name p)), Lit ''-'',
                              account_id p, Lit ''-'', current_region p])),
               (''open_search_domain_props'', Obj ''opensearch.CfnDomainProps'' []
                   [(''ebs_options'', Obj ''opensearch.CfnDomain.EBSOptionsProperty'' []
                        [(''volume_size'', N 200), (''volume_type'', S (Lit ''gp2''))]),
                    (''cluster_config'', Obj ''opensearch.CfnDomain.ClusterConfigProperty'' []
                        [(''instance_type'', S (Lit ''m6g.large.search''))]),
                    (''engine_version'', S (Lit ''OpenSearch_2.7''))])]\<rparr>"

definition lambda_opensearch_mapping :: "params \<Rightarrow> construct" where
  "lambda_opensearch_mapping p =
     \<lparr>cls = ''lambda_.DockerImageFunction'', cid = ''LambdaOpenSearchMapping'',
      kwargs = [(''code'', Obj ''lambda_.DockerImageCode.from_image_asset''
                   [S (Lit (os_path_join (script_location p) ''../lambda/map_opensearch_lambda/''))] []),
               (''memory_size'', N 128),
               (''architecture'', E ''lambda_.Architecture.X86_64''),
               (''environment'', D [])]\<rparr>"

definition task_opensearch_mapping :: "params \<Rightarrow> construct" where
  "task_opensearch_mapping p =
     \<lparr>cls = ''tasks.LambdaInvoke'', cid = ''TaskOpenSearchMapping'',
      kwargs = [(''lambda_function'', R (cid (lambda_opensearch_mapping p))),
               (''output_path'', S (Lit ''$.Payload''))]\<rparr>"

definition set_meta_data_function :: "params \<Rightarrow> construct" where
  "set_meta_data_function p =
     \<lparr>cls = ''lambda_.DockerImageFunction'', cid = ''SetMetaDataFunction'',
      kwargs = [(''code'', Obj ''lambda_.DockerImageCode.from_image_asset''
                   [S (Lit (os_path_join (script_location p)
                              ''../lambda/set-manifest-meta-data-opensearch''))] []),
               (''memory_size'', N 128),
               (''architecture'', E ''lambda_.Architecture.X86_64''),
               (''environment'', D [(''LOG_LEVEL'', S (Lit ''ERROR''))])]\<rparr>"

definition set_meta_data_task :: "params \<Rightarrow> construct" where
  "set_meta_data_task p =
     \<lparr>cls = ''tasks.LambdaInvoke'', cid = ''SetMetaData'',
      kwargs = [(''lambda_function'', R (cid (set_meta_data_function p))),
               (''output_path'', S (Lit ''$.Payload''))]\<rparr>"

text \<open>
  The Map state. The source writes the \<^verbatim>\<open>States.Format\<close> expression over four lines
  joined by backslashes inside one string literal, so the string holds the blank before
  each backslash and the indentation of the continuation line: nineteen blanks after each
  comma.
\<close>

definition s3Path_expression :: string where
  "s3Path_expression =
     ''States.Format('s3://{}/{}/{}',''
     @ ''                   $.documentSplitterS3OutputBucket,''
     @ ''                   $.documentSplitterS3OutputPath,''
     @ ''                   $$.Map.Item.Value)''"

definition map_state :: construct where
  "map_state =
     \<lparr>cls = ''sfn.Map'', cid = ''Map State'',
      kwargs = [(''items_path'', JsonPath_string_at ''$.pages''),
               (''parameters'',
                  D [(''manifest'', D [(''s3Path'', JsonPath_string_at s3Path_expression)]),
                     (''mime'', JsonPath_string_at ''$.mime''),
                     (''originFileURI'', JsonPath_string_at ''$.originFileURI'')])]\<rparr>"

definition state_machine :: "chain \<Rightarrow> construct" where
  "state_machine workflow_chain =
     \<lparr>cls = ''sfn.StateMachine'', cid = workflow_name,
      kwargs = [(''definition'', chain_value workflow_chain)]\<rparr>"

definition sf_executions_start_throttle :: "chain \<Rightarrow> construct" where
  "sf_executions_start_throttle workflow_chain =
     \<lparr>cls = ''tcdk.SFExecutionsStartThrottle'', cid = ''ExecutionThrottle'',
      kwargs = [(''state_machine_arn'', S (state_machine_arn (state_machine workflow_chain))),
               (''executions_concurrency_threshold'', N 550),
               (''sqs_batch'', N 10),
               (''lambda_log_level'', S (Lit ''ERROR'')),
               (''event_source'', L [s3_event_source])]\<rparr>"

definition queue_url_urlencoded :: "params \<Rightarrow> chain \<Rightarrow> tstr" where
  "queue_url_urlencoded p workflow_chain =
     (if document_queue p
      then Join ''%2F'' (Split ''/'' (Join ''%3A'' (Split '':''
             (document_queue_queue_url (sf_executions_start_throttle workflow_chain)))))
      else Lit [])"

definition CfnOutput :: "string \<Rightarrow> (string \<times> pyval) list \<Rightarrow> construct" where
  "CfnOutput name kws = \<lparr>cls = ''CfnOutput'', cid = name, kwargs = kws\<rparr>"

definition DocumentUploadLocation :: construct where
  "DocumentUploadLocation =
     CfnOutput ''DocumentUploadLocation''
       [(''value'', S (fstring [Lit ''s3://'', bucket_name document_bucket, Lit ''/'',
                                Lit s3_upload_prefix, Lit ''/''])),
        (''export_name'', S (fstring [Aws_STACK_NAME, Lit ''-DocumentUploadLocation'']))]"

definition StepFunctionFlowLink :: "params \<Rightarrow> chain \<Rightarrow> construct" where
  "StepFunctionFlowLink p workflow_chain =
     CfnOutput ''StepFunctionFlowLink''
       [(''value'', S (fstring [Lit ''https://'', current_region p,
            Lit ''.console.aws.amazon.com/states/home?region='', current_region p,
            Lit ''#/statemachines/view/'',
            state_machine_arn (state_machine workflow_chain)]))]"

definition DocumentQueueLink :: "params \<Rightarrow> chain \<Rightarrow> construct" where
  "DocumentQueueLink p workflow_chain =
     CfnOutput ''DocumentQueueLink''
       [(''value'', S (fstring [Lit ''https://'', current_region p,
            Lit ''.console.aws.amazon.com/sqs/v2/home?region='', current_region p,
            Lit ''#/queues/'', queue_url_urlencoded p workflow_chain]))]"

definition OpenSearchDashboard :: "params \<Rightarrow> construct" where
  "OpenSearchDashboard p =
     CfnOutput ''OpenSearchDashboard''
       [(''value'', S (fstring [Lit ''https://'',
            open_search_domain_attr_domain_endpoint (lambda_to_opensearch p),
            Lit ''/_dashboards'']))]"

definition OpenSearchLink :: "params \<Rightarrow> construct" where
  "OpenSearchLink p =
     CfnOutput ''OpenSearchLink''
       [(''value'', S (fstring [Lit ''https://'', current_region p,
            Lit ''.console.aws.amazon.com/aos/home?region='', current_region p,
            Lit ''#/opensearch/domains/'',
            open_search_domain_domain_name (lambda_to_opensearch p)]))]"

definition CognitoUserPoolLink :: "params \<Rightarrow> construct" where
  "CognitoUserPoolLink p =
     CfnOutput ''CognitoUserPoolLink''
       [(''value'', S (fstring [Lit ''https://'', current_region p,
            Lit ''.console.aws.amazon.com/cognito/v2/idp/user-pools/'',
            user_pool_user_pool_id (lambda_to_opensearch p),
            Lit ''/users?region='', current_region p]))]"

text \<open>
  The constructor, statement by statement in the order of the source. It returns the
  finished stack together with the workflow chain it built, or \<open>None\<close> where a library
  call raises.
\<close>

definition OpenSearchWorkflow :: "params \<Rightarrow> (stack \<times> chain) option" where
  "OpenSearchWorkflow p = do {
     let s = Stack_init (construct_id p)
       ''IDP CDK constructs sample for ingesting large number of documents to OpenSearch (SO9217)'';
     s \<leftarrow> instantiate document_bucket s;
     s \<leftarrow> instantiate decider_task s;
     s \<leftarrow> instantiate document_splitter_task s;
     s \<leftarrow> instantiate textract_async_task s;
     s \<leftarrow> instantiate textract_async_to_json s;
     s \<leftarrow> instantiate generate_open_search_batch s;
     s \<leftarrow> instantiate (lambda_opensearch_push p) s;
     let s = add_to_role_policy (lambda_opensearch_push p) lambda_opensearch_push_policy s;
     s \<leftarrow> instantiate (task_lambda_opensearch_push p) s;
     let s = add_retry (task_lambda_opensearch_push p)
       \<lparr>max_attempts = 100000,
        errors = [''Lambda.TooManyRequestsException'', ''OpenSearchConnectionTimeout'']\<rparr> s;
     s \<leftarrow> instantiate (lambda_to_opensearch p) s;
     s \<leftarrow> instantiate (lambda_opensearch_mapping p) s;
     s \<leftarrow> instantiate (task_opensearch_mapping p) s;
     let s = add_retry (task_opensearch_mapping p)
       \<lparr>max_attempts = 100000, errors = [''Lambda.TooManyRequestsException'']\<rparr> s;
     s \<leftarrow> instantiate (set_meta_data_function p) s;
     s \<leftarrow> instantiate (set_meta_data_task p) s;
     let s = add_retry (set_meta_data_task p)
       \<lparr>max_attempts = 10000, errors = [''Lambda.TooManyRequestsException'']\<rparr> s;
     (async_chain, s) \<leftarrow>
       Chain_next (Chain_start textract_async_task) (chainable textract_async_to_json) s;
     (c, s) \<leftarrow> State_next textract_async_to_json (chainable (set_meta_data_task p)) s;
     (c, s) \<leftarrow> Chain_next c (chainable generate_open_search_batch) s;
     (c, s) \<leftarrow> State_next generate_open_search_batch (chainable (task_lambda_opensearch_push p)) s;
     (c, s) \<leftarrow> Chain_next c (chainable (task_opensearch_mapping p)) s;
     s \<leftarrow> instantiate map_state s;
     let s = Map_iterator map_state async_chain s;
     (c, s) \<leftarrow> Chain_next (Chain_start decider_task) (chainable document_splitter_task) s;
     (workflow_chain, s) \<leftarrow> Chain_next c (chainable map_state) s;
     s \<leftarrow> instantiate (state_machine workflow_chain) s;
     s \<leftarrow> instantiate (sf_executions_start_throttle workflow_chain) s;
     s \<leftarrow> instantiate DocumentUploadLocation s;
     s \<leftarrow> instantiate (StepFunctionFlowLink p workflow_chain) s;
     s \<leftarrow> instantiate (DocumentQueueLink p workflow_chain) s;
     s \<leftarrow> instantiate (OpenSearchDashboard p) s;
     s \<leftarrow> instantiate (OpenSearchLink p) s;
     s \<leftarrow> instantiate (CognitoUserPoolLink p) s;
     Some (s, workflow_chain)
   }"

section \<open>What the workflow service does with the Map state\<close>

text \<open>
  The Map state is configuration for the workflow service: \<^verbatim>\<open>items_path\<close> selects an
  array in the state's input, and \<^verbatim>\<open>parameters\<close> is a template evaluated once per
  item to give the input of that iteration. The definitions below model the documented
  behaviour of the Amazon States Language for the fragment this program writes: reference
  paths of the form \<^verbatim>\<open>$.a.b\<close> into the input, paths starting with \<^verbatim>\<open>$$\<close> into the
  context object (which holds the current item under \<^verbatim>\<open>Map.Item.Value\<close>), and the
  intrinsic \<^verbatim>\<open>States.Format\<close> with a quoted template free of escapes and arguments
  that are paths to strings. Everything outside that fragment evaluates to \<open>None\<close>.
\<close>

datatype json =
    JString string
  | JNumber int
  | JBool bool
  | JNull
  | JArray "json list"
  | JObject "(string \<times> json) list"

fun get_field :: "json \<Rightarrow> string \<Rightarrow> json option" where
  "get_field (JObject kvs) k = map_of kvs k"
| "get_field _ k = None"

fun get_fields :: "string list \<Rightarrow> json \<Rightarrow> json option" where
  "get_fields [] j = Some j"
| "get_fields (k # ks) j = do { v \<leftarrow> get_field j k; get_fields ks v }"

definition json_path :: "string \<Rightarrow> json \<Rightarrow> json option" where
  "json_path path j =
     (case path of
        [] \<Rightarrow> None
      | c # rest \<Rightarrow>
          if c \<noteq> CHR ''$'' then None
          else if rest = [] then Some j
          else (case split_string ''.'' [] rest of
                  [] \<Rightarrow> None
                | first # names \<Rightarrow>
                    if first = [] \<and> [] \<notin> set names then get_fields names j else None))"

definition eval_reference :: "json \<Rightarrow> json \<Rightarrow> string \<Rightarrow> json option" where
  "eval_reference inp ctx path =
     (if take 2 path = ''$$'' then json_path (tl path) ctx else json_path path inp)"

text \<open>
  The arguments of an intrinsic are separated by commas outside quotes; blanks around an
  argument do not count.
\<close>

fun split_args :: "bool \<Rightarrow> string \<Rightarrow> string \<Rightarrow> string list" where
  "split_args q acc [] = [rev acc]"
| "split_args q acc (c # cs) =
     (if c = CHR 0x27 then split_args (\<not> q) (c # acc) cs
      else if c = CHR '','' \<and> \<not> q then rev acc # split_args False [] cs
      else split_args q (c # acc) cs)"

definition trim :: "string \<Rightarrow> string" where
  "trim s = rev (dropWhile (\<lambda>c. c = CHR '' '') (rev (dropWhile (\<lambda>c. c = CHR '' '') s)))"

definition unquote :: "string \<Rightarrow> string option" where
  "unquote s =
     (if 2 \<le> length s \<and> hd s = CHR 0x27 \<and> last s = CHR 0x27 \<and> CHR 0x5C \<notin> set s
      then Some (butlast (tl s)) else None)"

text \<open>Each \<^verbatim>\<open>{}\<close> of the template takes the next argument; none may be left over.\<close>

fun fill :: "string \<Rightarrow> string list \<Rightarrow> string option" where
  "fill [] args = (if args = [] then Some [] else None)"
| "fill [c] args = (if args = [] then Some [c] else None)"
| "fill (c # d # cs) args =
     (if c = CHR ''{'' \<and> d = CHR ''}''
      then (case args of [] \<Rightarrow> None | a # as \<Rightarrow> map_option ((@) a) (fill cs as))
      else map_option ((#) c) (fill (d # cs) args))"

definition string_argument :: "json \<Rightarrow> json \<Rightarrow> string \<Rightarrow> string option" where
  "string_argument inp ctx path =
     (case eval_reference inp ctx path of Some (JString v) \<Rightarrow> Some v | _ \<Rightarrow> None)"

definition States_Format :: "json \<Rightarrow> json \<Rightarrow> string \<Rightarrow> json option" where
  "States_Format inp ctx body =
     (case map trim (split_args False [] body) of
        [] \<Rightarrow> None
      | t # paths \<Rightarrow> do {
          template \<leftarrow> unquote t;
          vals \<leftarrow> those (map (string_argument inp ctx) paths);
          out \<leftarrow> fill template vals;
          Some (JString out)
        })"

definition eval_expression :: "json \<Rightarrow> json \<Rightarrow> string \<Rightarrow> json option" where
  "eval_expression inp ctx e =
     (if take 14 e = ''States.Format(''
      then (if last e = CHR '')'' then States_Format inp ctx (butlast (drop 14 e)) else None)
      else eval_reference inp ctx e)"

fun eval_template :: "json \<Rightarrow> json \<Rightarrow> pyval \<Rightarrow> json option"
  and eval_entries :: "json \<Rightarrow> json \<Rightarrow> (string \<times> pyval) list \<Rightarrow> (string \<times> json) list option" where
  "eval_template inp ctx (JsonPath e) = eval_expression inp ctx e"
| "eval_template inp ctx (D kvs) = map_option JObject (eval_entries inp ctx kvs)"
| "eval_template inp ctx (S t) = (case t of Lit s \<Rightarrow> Some (JString s) | _ \<Rightarrow> None)"
| "eval_template inp ctx (N n) = Some (JNumber n)"
| "eval_template inp ctx (B b) = Some (JBool b)"
| "eval_template inp ctx (E v) = None"
| "eval_template inp ctx (R v) = None"
| "eval_template inp ctx (L vs) = None"
| "eval_template inp ctx (Obj f args kws) = None"
| "eval_entries inp ctx [] = Some []"
| "eval_entries inp ctx ((k, v) # kvs) = do {
     j \<leftarrow> eval_template inp ctx v;
     js \<leftarrow> eval_entries inp ctx kvs;
     Some ((k, j) # js)
   }"

definition Map_item_context :: "nat \<Rightarrow> json \<Rightarrow> json" where
  "Map_item_context i v =
     JObject [(''Map'', JObject [(''Item'', JObject [(''Index'', JNumber (int i)), (''Value'', v)])])]"

definition Map_items :: "construct \<Rightarrow> json \<Rightarrow> json list option" where
  "Map_items m inp = do {
     path \<leftarrow> (case kwarg m ''items_path'' of
                 None \<Rightarrow> Some ''$''
               | Some (JsonPath q) \<Rightarrow> Some q
               | Some _ \<Rightarrow> None);
     items \<leftarrow> json_path path inp;
     (case items of JArray vs \<Rightarrow> Some vs | _ \<Rightarrow> None)
   }"

definition Map_iteration_input :: "construct \<Rightarrow> json \<Rightarrow> nat \<Rightarrow> json \<Rightarrow> json option" where
  "Map_iteration_input m inp i v =
     (case kwarg m ''parameters'' of
        None \<Rightarrow> Some v
      | Some t \<Rightarrow> eval_template inp (Map_item_context i v) t)"

definition Map_iteration_inputs :: "construct \<Rightarrow> json \<Rightarrow> json list option" where
  "Map_iteration_inputs m inp = do {
     vs \<leftarrow> Map_items m inp;
     those (map (\<lambda>(i, v). Map_iteration_input m inp i v) (enumerate 0 vs))
   }"

section \<open>Reading the finished stack\<close>

text \<open>
  The claims about the stack speak of everything the file declares. These functions
  enumerate it: every value nested in a keyword argument, the deploy-time tokens inside
  strings, the references to constructs, and the keyword names used at any depth.
\<close>

primrec tokens :: "tstr \<Rightarrow> (string \<times> string) list"
  and tokens_list :: "tstrs \<Rightarrow> (string \<times> string) list" where
  "tokens (Lit s) = []"
| "tokens (Attr c a) = [(c, a)]"
| "tokens (Cat x y) = tokens x @ tokens y"
| "tokens (Join d xs) = tokens_list xs"
| "tokens_list (Split d x) = tokens x"

fun subvalues :: "pyval \<Rightarrow> pyval list" where
  "subvalues (L vs) = L vs # concat (map subvalues vs)"
| "subvalues (D kvs) = D kvs # concat (map (\<lambda>kv. subvalues (snd kv)) kvs)"
| "subvalues (Obj f args kws) =
     Obj f args kws # concat (map subvalues args) @ concat (map (\<lambda>kv. subvalues (snd kv)) kws)"
| "subvalues v = [v]"

definition construct_values :: "construct \<Rightarrow> pyval list" where
  "construct_values c = concat (map (\<lambda>kv. subvalues (snd kv)) (kwargs c))"

definition value_keywords :: "pyval \<Rightarrow> (string \<times> pyval) list" where
  "value_keywords v = (case v of D kvs \<Rightarrow> kvs | Obj f args kws \<Rightarrow> kws | _ \<Rightarrow> [])"

definition construct_keywords :: "construct \<Rightarrow> (string \<times> pyval) list" where
  "construct_keywords c = kwargs c @ concat (map value_keywords (construct_values c))"

definition value_tokens :: "pyval \<Rightarrow> (string \<times> string) list" where
  "value_tokens v = (case v of S t \<Rightarrow> tokens t | _ \<Rightarrow> [])"

definition construct_tokens :: "construct \<Rightarrow> (string \<times> string) list" where
  "construct_tokens c = concat (map value_tokens (construct_values c))"

definition value_refs :: "pyval \<Rightarrow> string list" where
  "value_refs v = (case v of R c \<Rightarrow> [c] | _ \<Rightarrow> [])"

definition construct_refs :: "construct \<Rightarrow> string list" where
  "construct_refs c = concat (map value_refs (construct_values c))"

text \<open>The constructs of a class, and the deployed value of a stack output.\<close>

definition of_class :: "string \<Rightarrow> stack \<Rightarrow> construct list" where
  "of_class k s = filter (\<lambda>c. cls c = k) (constructs s)"

definition output_value :: "stack \<Rightarrow> string \<Rightarrow> tstr option" where
  "output_value s name =
     (case find (\<lambda>c. cid c = name) (of_class ''CfnOutput'' s) of
        None \<Rightarrow> None
      | Some c \<Rightarrow> (case kwarg c ''value'' of Some (S t) \<Rightarrow> Some t | _ \<Rightarrow> None))"

text \<open>
  A keyword is a concurrency setting when its name speaks of concurrency or of a batch size;
  \<open>concurrency_settings\<close> lists, for the whole stack, the construct, the keyword and the
  value of each.
\<close>

definition concurrency_keyword :: "string \<Rightarrow> bool" where
  "concurrency_keyword k = (occurs ''concurren'' k \<or> occurs ''batch'' k)"

definition concurrency_settings :: "stack \<Rightarrow> (string \<times> string \<times> pyval) list" where
  "concurrency_settings s =
     concat (map (\<lambda>c. map (\<lambda>kv. (cid c, fst kv, snd kv))
                    (filter (\<lambda>kv. concurrency_keyword (fst kv)) (construct_keywords c)))
                 (constructs s))"

text \<open>A construct is given another one by reference, or by a token of it.\<close>

definition mentions :: "string \<Rightarrow> construct \<Rightarrow> bool" where
  "mentions name c = (name \<in> set (construct_refs c) \<or> name \<in> set (map fst (construct_tokens c)))"

text \<open>
  The event sources the stack hands to its constructs: the objects made by the
  \<^verbatim>\<open>eventsources\<close> module, each with the construct that receives it.
\<close>

definition is_event_source :: "pyval \<Rightarrow> bool" where
  "is_event_source v = (case v of Obj f args kws \<Rightarrow> take 13 f = ''eventsources.'' | _ \<Rightarrow> False)"

definition event_sources :: "stack \<Rightarrow> (string \<times> pyval) list" where
  "event_sources s =
     concat (map (\<lambda>c. map (\<lambda>v. (cid c, v)) (filter is_event_source (construct_values c)))
                 (constructs s))"

text \<open>
  The value of the variable \<^verbatim>\<open>workflow_chain\<close> after lines 264 to 266: the chain that
  starts at the decider and ends at the Map state.
\<close>

definition workflow_chain :: chain where
  "workflow_chain = \<lparr>start_state = cid decider_task, end_states = [cid map_state]\<rparr>"

text \<open>Parameters for concrete runs of the constructor.\<close>

definition example_params :: params where
  "example_params =
     \<lparr>construct_id = ''OpenSearchWorkflow'', stack_name = ''Idp_OpenSearch.Stack-1'',
      current_region = Lit ''us-east-1'', account_id = Lit ''123456789012'',
      script_location = ''/app/textract_cdk_stack_samples'', document_queue = True\<rparr>"

definition example_deployment :: deployment where
  "example_deployment c a =
     (if a = ''document_queue.queue_url''
      then ''https://sqs.us-east-1.amazonaws.com/123456789012/documents''
      else c @ ''.'' @ a)"

definition example_input :: json where
  "example_input =
     JObject [(''pages'', JArray [JString ''page-0.pdf'', JString ''page-1.pdf'']),
              (''documentSplitterS3OutputBucket'', JString ''bucket-1''),
              (''documentSplitterS3OutputPath'', JString ''textract-output/doc/splits''),
              (''mime'', JString ''application/pdf''),
              (''originFileURI'', JString ''s3://bucket-1/uploads/doc.pdf'')]"

definition no_queue_params :: params where
  "no_queue_params = example_params\<lparr>document_queue := False\<rparr>"

section \<open>What the deployment service does with a bucket when the stack is deleted\<close>

text \<open>
  The two keyword arguments of the bucket are configuration for CloudFormation. The
  definitions below model its documented behaviour on the deletion of a stack, for the
  buckets the stack declares. A bucket whose removal policy is \<^verbatim>\<open>RemovalPolicy.DESTROY\<close>
  is deleted with the stack; with any other policy, or none, it is kept. The service does
  not delete a bucket that still holds objects: the bucket and its objects stay, unless
  \<^verbatim>\<open>auto_delete_objects\<close> is set, in which case the objects are deleted first. The
  storage of an account is the list of its buckets, each named by the id of its construct,
  and the list of the stored objects, each with its bucket and its key.
\<close>

record storage =
  buckets :: "string list"
  objects :: "(string \<times> string) list"

definition bucket_objects :: "string \<Rightarrow> storage \<Rightarrow> string list" where
  "bucket_objects b st = map snd (filter (\<lambda>ob. fst ob = b) (objects st))"

definition delete_bucket :: "construct \<Rightarrow> storage \<Rightarrow> storage" where
  "delete_bucket c st =
     (if kwarg c ''removal_policy'' = Some (E ''RemovalPolicy.DESTROY'')
      then (if kwarg c ''auto_delete_objects'' = Some (B True)
            then \<lparr>buckets = removeAll (cid c) (buckets st),
                  objects = filter (\<lambda>ob. fst ob \<noteq> cid c) (objects st)\<rparr>
            else if bucket_objects (cid c) st = []
            then \<lparr>buckets = removeAll (cid c) (buckets st), objects = objects st\<rparr>
            else st)
      else st)"

definition delete_stack :: "stack \<Rightarrow> storage \<Rightarrow> storage" where
  "delete_stack s st = fold delete_bucket (of_class ''s3.Bucket'' s) st"

definition example_storage :: storage where
  "example_storage =
     \<lparr>buckets = [''OpenSearchWorkflowBucket'', ''AnotherBucket''],
      objects = [(''OpenSearchWorkflowBucket'', ''uploads/doc.pdf''),
                 (''OpenSearchWorkflowBucket'', ''textract-output/doc/splits/page-0.pdf''),
                 (''AnotherBucket'', ''report.csv''),
                 (''OpenSearchWorkflowBucket'', ''textract-opensearch-output/doc.json'')]\<rparr>"

lemma lower_char_in_class: "in_class c \<Longrightarrow> lower_alnum_dash (lower_char c)"
  by (auto simp: in_class_def lower_alnum_dash_def lower_char_def Let_def)

lemma cognito_stack_name_chars:
  "c \<in> set (cognito_stack_name s) \<Longrightarrow> lower_alnum_dash c"
proof -
  assume "c \<in> set (cognito_stack_name s)"
  then have "c \<in> set (lower (re_sub_delete s))"
    unfolding cognito_stack_name_def by (rule in_set_takeD)
  then obtain x where "in_class x" and "c = lower_char x"
    by (auto simp: lower_def re_sub_delete_def)
  then show ?thesis by (simp add: lower_char_in_class)
qed

lemma split_string_nonempty: "split_string d acc s \<noteq> []"
  by (induction d acc s rule: split_string.induct) auto

lemma Fn_join_Cons: "xs \<noteq> [] \<Longrightarrow> Fn_join d (x # xs) = x @ d @ Fn_join d xs"
  by (cases xs) auto

lemma Fn_join_split_aux:
  "Fn_join e (split_string [c] acc s) = rev acc @ replace_char c e s"
proof (induction s arbitrary: acc)
  case Nil
  show ?case by (simp add: replace_char_def)
next
  case (Cons x xs)
  show ?case
  proof (cases "x = c")
    case True
    have "Fn_join e (split_string [c] acc (x # xs))
        = Fn_join e (rev acc # split_string [c] [] xs)"
      using True by simp
    also have "\<dots> = rev acc @ e @ Fn_join e (split_string [c] [] xs)"
      by (rule Fn_join_Cons) (rule split_string_nonempty)
    also have "\<dots> = rev acc @ replace_char c e (x # xs)"
      using True by (simp add: Cons.IH replace_char_def)
    finally show ?thesis .
  next
    case False
    then show ?thesis by (simp add: Cons.IH replace_char_def)
  qed
qed

lemma Fn_join_split: "Fn_join e (Fn_split [c] s) = replace_char c e s"
  by (simp add: Fn_split_def Fn_join_split_aux)

lemma replace_twice_escaped:
  "replace_char (CHR ''/'') ''%2F'' (replace_char (CHR '':'') ''%3A'' s) = escaped s"
  by (induction s) (auto simp: replace_char_def escaped_def escape_char_def)

lemma take2_escaped_3A: "take 2 (escaped cs) = ''3A'' \<longleftrightarrow> take 2 cs = ''3A''"
proof (cases cs)
  case Nil
  then show ?thesis by (simp add: escaped_def)
next
  case (Cons x ys)
  show ?thesis
  proof (cases ys)
    case Nil
    with Cons show ?thesis by (auto simp: escaped_def escape_char_def)
  next
    case (Cons y zs)
    with \<open>cs = x # ys\<close> show ?thesis by (auto simp: escaped_def escape_char_def)
  qed
qed

lemma take2_escaped_2F: "take 2 (escaped cs) = ''2F'' \<longleftrightarrow> take 2 cs = ''2F''"
proof (cases cs)
  case Nil
  then show ?thesis by (simp add: escaped_def)
next
  case (Cons x ys)
  show ?thesis
  proof (cases ys)
    case Nil
    with Cons show ?thesis by (auto simp: escaped_def escape_char_def)
  next
    case (Cons y zs)
    with \<open>cs = x # ys\<close> show ?thesis by (auto simp: escaped_def escape_char_def)
  qed
qed

lemma escaped_Cons: "escaped (c # cs) = escape_char c @ escaped cs"
  by (simp add: escaped_def)

lemma unescape_escaped:
  "\<not> occurs ''%3A'' s \<Longrightarrow> \<not> occurs ''%2F'' s \<Longrightarrow> unescape (escaped s) = s"
proof (induction s)
  case Nil
  show ?case by (simp add: escaped_def)
next
  case (Cons c cs)
  from Cons.prems have rest: "\<not> occurs ''%3A'' cs" "\<not> occurs ''%2F'' cs"
    by simp_all
  from Cons.prems have no3A: "c = CHR ''%'' \<Longrightarrow> take 2 cs \<noteq> ''3A''"
    and no2F: "c = CHR ''%'' \<Longrightarrow> take 2 cs \<noteq> ''2F''"
    by (simp_all add: numeral_2_eq_2)
  have IH: "unescape (escaped cs) = cs" using Cons.IH rest by simp
  consider (colon) "c = CHR '':''" | (slash) "c = CHR ''/''" | (percent) "c = CHR ''%''"
    | (other) "c \<noteq> CHR '':''" "c \<noteq> CHR ''/''" "c \<noteq> CHR ''%''" by blast
  then show ?case
  proof cases
    case colon
    then show ?thesis by (simp add: escaped_Cons escape_char_def IH)
  next
    case slash
    then show ?thesis by (simp add: escaped_Cons escape_char_def IH)
  next
    case percent
    from no3A percent have a: "take 2 cs \<noteq> ''3A''" by blast
    from no2F percent have b: "take 2 cs \<noteq> ''2F''" by blast
    have a': "take 2 (escaped cs) \<noteq> ''3A''" using a by (simp add: take2_escaped_3A)
    have b': "take 2 (escaped cs) \<noteq> ''2F''" using b by (simp add: take2_escaped_2F)
    have "escaped (c # cs) = c # escaped cs"
      using percent by (simp add: escaped_Cons escape_char_def)
    then show ?thesis using percent a' b' IH by simp
  next
    case other
    then show ?thesis by (simp add: escaped_Cons escape_char_def IH)
  qed
qed

text \<open>A string without a percent sign holds neither escape.\<close>

lemma no_percent_occurs: "CHR ''%'' \<notin> set s \<Longrightarrow> \<not> occurs (CHR ''%'' # q) s"
  by (induction s) auto

section \<open>The stack the constructor builds\<close>

lemmas construct_defs =
  document_bucket_def decider_task_def document_splitter_task_def textract_async_task_def
  textract_async_to_json_def generate_open_search_batch_def lambda_opensearch_push_def
  task_lambda_opensearch_push_def lambda_to_opensearch_def lambda_opensearch_mapping_def
  task_opensearch_mapping_def set_meta_data_function_def set_meta_data_task_def map_state_def
  state_machine_def sf_executions_start_throttle_def CfnOutput_def DocumentUploadLocation_def
  StepFunctionFlowLink_def DocumentQueueLink_def OpenSearchDashboard_def OpenSearchLink_def
  CognitoUserPoolLink_def workflow_name_def

lemma cid_simps:
  "cid document_bucket = ''OpenSearchWorkflowBucket''"
  "cid decider_task = ''OpenSearchWorkflow-Decider''"
  "cid document_splitter_task = ''DocumentSplitter''"
  "cid textract_async_task = ''TextractAsync''"
  "cid textract_async_to_json = ''TextractAsyncToJSON2''"
  "cid generate_open_search_batch = ''GenerateOpenSearchBatch''"
  "cid (lambda_opensearch_push p) = ''LambdaOpenSearchPush''"
  "cid (task_lambda_opensearch_push p) = ''OpenSearchPushInvoke''"
  "cid (lambda_to_opensearch p) = ''OpenSearchResources''"
  "cid (lambda_opensearch_mapping p) = ''LambdaOpenSearchMapping''"
  "cid (task_opensearch_mapping p) = ''TaskOpenSearchMapping''"
  "cid (set_meta_data_function p) = ''SetMetaDataFunction''"
  "cid (set_meta_data_task p) = ''SetMetaData''"
  "cid map_state = ''Map State''"
  "cid (state_machine w) = ''OpenSearchWorkflow''"
  "cid (sf_executions_start_throttle w) = ''ExecutionThrottle''"
  "cid DocumentUploadLocation = ''DocumentUploadLocation''"
  "cid (StepFunctionFlowLink p w) = ''StepFunctionFlowLink''"
  "cid (DocumentQueueLink p w) = ''DocumentQueueLink''"
  "cid (OpenSearchDashboard p) = ''OpenSearchDashboard''"
  "cid (OpenSearchLink p) = ''OpenSearchLink''"
  "cid (CognitoUserPoolLink p) = ''CognitoUserPoolLink''"
  by (simp_all add: construct_defs)

lemma cls_simps:
  "cls document_bucket = ''s3.Bucket''"
  "cls decider_task = ''tcdk.TextractPOCDecider''"
  "cls document_splitter_task = ''tcdk.DocumentSplitter''"
  "cls textract_async_task = ''tcdk.TextractGenericAsyncSfnTask''"
  "cls textract_async_to_json = ''tcdk.TextractAsyncToJSON''"
  "cls generate_open_search_batch = ''tcdk.TextractGenerateCSV''"
  "cls (lambda_opensearch_push p) = ''lambda_.DockerImageFunction''"
  "cls (task_lambda_opensearch_push p) = ''tasks.LambdaInvoke''"
  "cls (lambda_to_opensearch p) = ''LambdaToOpenSearch''"
  "cls (lambda_opensearch_mapping p) = ''lambda_.DockerImageFunction''"
  "cls (task_opensearch_mapping p) = ''tasks.LambdaInvoke''"
  "cls (set_meta_data_function p) = ''lambda_.DockerImageFunction''"
  "cls (set_meta_data_task p) = ''tasks.LambdaInvoke''"
  "cls map_state = ''sfn.Map''"
  "cls (state_machine w) = ''sfn.StateMachine''"
  "cls (sf_executions_start_throttle w) = ''tcdk.SFExecutionsStartThrottle''"
  "cls DocumentUploadLocation = ''CfnOutput''"
  "cls (StepFunctionFlowLink p w) = ''CfnOutput''"
  "cls (DocumentQueueLink p w) = ''CfnOutput''"
  "cls (OpenSearchDashboard p) = ''CfnOutput''"
  "cls (OpenSearchLink p) = ''CfnOutput''"
  "cls (CognitoUserPoolLink p) = ''CfnOutput''"
  by (simp_all add: construct_defs)

text \<open>
  The constructor never fails, and this is the stack and the workflow chain it returns.
\<close>

lemma OpenSearchWorkflow_result:
  "OpenSearchWorkflow p = Some
     (\<lparr>stack_id = construct_id p,
       description =
         ''IDP CDK constructs sample for ingesting large number of documents to OpenSearch (SO9217)'',
       constructs =
         [document_bucket, decider_task, document_splitter_task, textract_async_task,
          textract_async_to_json, generate_open_search_batch, lambda_opensearch_push p,
          task_lambda_opensearch_push p, lambda_to_opensearch p, lambda_opensearch_mapping p,
          task_opensearch_mapping p, set_meta_data_function p, set_meta_data_task p, map_state,
          state_machine workflow_chain,
          sf_executions_start_throttle workflow_chain,
          DocumentUploadLocation,
          StepFunctionFlowLink p workflow_chain,
          DocumentQueueLink p workflow_chain,
          OpenSearchDashboard p, OpenSearchLink p, CognitoUserPoolLink p],
       transitions =
         [(''TextractAsync'', ''TextractAsyncToJSON2''),
          (''TextractAsyncToJSON2'', ''SetMetaData''),
          (''SetMetaData'', ''GenerateOpenSearchBatch''),
          (''GenerateOpenSearchBatch'', ''OpenSearchPushInvoke''),
          (''OpenSearchPushInvoke'', ''TaskOpenSearchMapping''),
          (''OpenSearchWorkflow-Decider'', ''DocumentSplitter''),
          (''DocumentSplitter'', ''Map State'')],
       iterators = [(''Map State'', ''TextractAsync'')],
       retries =
         [(''OpenSearchPushInvoke'',
             \<lparr>max_attempts = 100000,
              errors = [''Lambda.TooManyRequestsException'', ''OpenSearchConnectionTimeout'']\<rparr>),
          (''TaskOpenSearchMapping'',
             \<lparr>max_attempts = 100000, errors = [''Lambda.TooManyRequestsException'']\<rparr>),
          (''SetMetaData'',
             \<lparr>max_attempts = 10000, errors = [''Lambda.TooManyRequestsException'']\<rparr>)],
       catches = [],
       role_policies = [(''LambdaOpenSearchPush'', lambda_opensearch_push_policy)]\<rparr>, workflow_chain)"
  by (simp add: OpenSearchWorkflow_def Stack_init_def instantiate_def cid_simps workflow_chain_def
      add_retry_def add_to_role_policy_def Chain_next_def Chain_start_def State_next_def
      chainable_def make_next_def Map_iterator_def)

lemma built:
  assumes "OpenSearchWorkflow p = Some (s, w)"
  shows "w = workflow_chain"
    and "constructs s =
         [document_bucket, decider_task, document_splitter_task, textract_async_task,
          textract_async_to_json, generate_open_search_batch, lambda_opensearch_push p,
          task_lambda_opensearch_push p, lambda_to_opensearch p, lambda_opensearch_mapping p,
          task_opensearch_mapping p, set_meta_data_function p, set_meta_data_task p, map_state,
          state_machine workflow_chain, sf_executions_start_throttle workflow_chain,
          DocumentUploadLocation, StepFunctionFlowLink p workflow_chain,
          DocumentQueueLink p workflow_chain, OpenSearchDashboard p, OpenSearchLink p,
          CognitoUserPoolLink p]"
    and "transitions s =
         [(''TextractAsync'', ''TextractAsyncToJSON2''),
          (''TextractAsyncToJSON2'', ''SetMetaData''),
          (''SetMetaData'', ''GenerateOpenSearchBatch''),
          (''GenerateOpenSearchBatch'', ''OpenSearchPushInvoke''),
          (''OpenSearchPushInvoke'', ''TaskOpenSearchMapping''),
          (''OpenSearchWorkflow-Decider'', ''DocumentSplitter''),
          (''DocumentSplitter'', ''Map State'')]"
    and "iterators s = [(''Map State'', ''TextractAsync'')]"
    and "retries s =
         [(''OpenSearchPushInvoke'',
             \<lparr>max_attempts = 100000,
              errors = [''Lambda.TooManyRequestsException'', ''OpenSearchConnectionTimeout'']\<rparr>),
          (''TaskOpenSearchMapping'',
             \<lparr>max_attempts = 100000, errors = [''Lambda.TooManyRequestsException'']\<rparr>),
          (''SetMetaData'',
             \<lparr>max_attempts = 10000, errors = [''Lambda.TooManyRequestsException'']\<rparr>)]"
    and "catches s = []"
  using assms unfolding OpenSearchWorkflow_result by auto

text \<open>Hence the constructor always returns.\<close>

lemma runs: "\<exists>s w. OpenSearchWorkflow p = Some (s, w)"
  by (simp add: OpenSearchWorkflow_result)

text \<open>The outputs of the stack, in the order of the source, and the value of each.\<close>

lemma output_values:
  assumes "OpenSearchWorkflow p = Some (s, w)"
  shows "of_class ''CfnOutput'' s =
           [DocumentUploadLocation, StepFunctionFlowLink p w, DocumentQueueLink p w,
            OpenSearchDashboard p, OpenSearchLink p, CognitoUserPoolLink p]"
    and "output_value s ''DocumentUploadLocation'' =
           Some (fstring [Lit ''s3://'', bucket_name document_bucket, Lit ''/'',
                          Lit s3_upload_prefix, Lit ''/''])"
    and "output_value s ''StepFunctionFlowLink'' =
           Some (fstring [Lit ''https://'', current_region p,
                  Lit ''.console.aws.amazon.com/states/home?region='', current_region p,
                  Lit ''#/statemachines/view/'', state_machine_arn (state_machine w)])"
    and "output_value s ''DocumentQueueLink'' =
           Some (fstring [Lit ''https://'', current_region p,
                  Lit ''.console.aws.amazon.com/sqs/v2/home?region='', current_region p,
                  Lit ''#/queues/'', queue_url_urlencoded p w])"
    and "output_value s ''OpenSearchDashboard'' =
           Some (fstring [Lit ''https://'',
                  open_search_domain_attr_domain_endpoint (lambda_to_opensearch p),
                  Lit ''/_dashboards''])"
    and "output_value s ''OpenSearchLink'' =
           Some (fstring [Lit ''https://'', current_region p,
                  Lit ''.console.aws.amazon.com/aos/home?region='', current_region p,
                  Lit ''#/opensearch/domains/'',
                  open_search_domain_domain_name (lambda_to_opensearch p)])"
    and "output_value s ''CognitoUserPoolLink'' =
           Some (fstring [Lit ''https://'', current_region p,
                  Lit ''.console.aws.amazon.com/cognito/v2/idp/user-pools/'',
                  user_pool_user_pool_id (lambda_to_opensearch p),
                  Lit ''/users?region='', current_region p])"
proof -
  note b = built[OF assms]
  show oc: "of_class ''CfnOutput'' s =
           [DocumentUploadLocation, StepFunctionFlowLink p w, DocumentQueueLink p w,
            OpenSearchDashboard p, OpenSearchLink p, CognitoUserPoolLink p]"
    by (simp add: of_class_def b cls_simps)
  show "output_value s ''DocumentUploadLocation'' =
           Some (fstring [Lit ''s3://'', bucket_name document_bucket, Lit ''/'',
                          Lit s3_upload_prefix, Lit ''/''])"
    unfolding output_value_def oc
    by (simp add: cid_simps) (simp add: kwarg_def DocumentUploadLocation_def CfnOutput_def)
  show "output_value s ''StepFunctionFlowLink'' =
           Some (fstring [Lit ''https://'', current_region p,
                  Lit ''.console.aws.amazon.com/states/home?region='', current_region p,
                  Lit ''#/statemachines/view/'', state_machine_arn (state_machine w)])"
    unfolding output_value_def oc
    by (simp add: cid_simps) (simp add: kwarg_def StepFunctionFlowLink_def CfnOutput_def)
  show "output_value s ''DocumentQueueLink'' =
           Some (fstring [Lit ''https://'', current_region p,
                  Lit ''.console.aws.amazon.com/sqs/v2/home?region='', current_region p,
                  Lit ''#/queues/'', queue_url_urlencoded p w])"
    unfolding output_value_def oc
    by (simp add: cid_simps) (simp add: kwarg_def DocumentQueueLink_def CfnOutput_def)
  show "output_value s ''OpenSearchDashboard'' =
           Some (fstring [Lit ''https://'',
                  open_search_domain_attr_domain_endpoint (lambda_to_opensearch p),
                  Lit ''/_dashboards''])"
    unfolding output_value_def oc
    by (simp add: cid_simps) (simp add: kwarg_def OpenSearchDashboard_def CfnOutput_def)
  show "output_value s ''OpenSearchLink'' =
           Some (fstring [Lit ''https://'', current_region p,
                  Lit ''.console.aws.amazon.com/aos/home?region='', current_region p,
                  Lit ''#/opensearch/domains/'',
                  open_search_domain_domain_name (lambda_to_opensearch p)])"
    unfolding output_value_def oc
    by (simp add: cid_simps) (simp add: kwarg_def OpenSearchLink_def CfnOutput_def)
  show "output_value s ''CognitoUserPoolLink'' =
           Some (fstring [Lit ''https://'', current_region p,
                  Lit ''.console.aws.amazon.com/cognito/v2/idp/user-pools/'',
                  user_pool_user_pool_id (lambda_to_opensearch p),
                  Lit ''/users?region='', current_region p])"
    unfolding output_value_def oc
    by (simp add: cid_simps) (simp add: kwarg_def CognitoUserPoolLink_def CfnOutput_def)
qed

lemmas attr_defs = bucket_name_def bucket_arn_def state_machine_arn_def
  document_queue_queue_url_def open_search_domain_attr_domain_endpoint_def
  open_search_domain_domain_name_def user_pool_user_pool_id_def

lemma cognito_stack_name_length: "length (cognito_stack_name s) \<le> 30"
  by (simp add: cognito_stack_name_def)

text \<open>
  The keywords of each construct, at any depth, that name a concurrency or a batch size.
\<close>

lemma concurrency_keywords:
  "filter (\<lambda>kv. concurrency_keyword (fst kv)) (construct_keywords document_bucket) = []"
  "filter (\<lambda>kv. concurrency_keyword (fst kv)) (construct_keywords decider_task) = []"
  "filter (\<lambda>kv. concurrency_keyword (fst kv)) (construct_keywords document_splitter_task) = []"
  "filter (\<lambda>kv. concurrency_keyword (fst kv)) (construct_keywords textract_async_task) = []"
  "filter (\<lambda>kv. concurrency_keyword (fst kv)) (construct_keywords textract_async_to_json) = []"
  "filter (\<lambda>kv. concurrency_keyword (fst kv)) (construct_keywords generate_open_search_batch) = []"
  "filter (\<lambda>kv. concurrency_keyword (fst kv)) (construct_keywords (lambda_opensearch_push p)) = []"
  "filter (\<lambda>kv. concurrency_keyword (fst kv)) (construct_keywords (task_lambda_opensearch_push p)) = []"
  "filter (\<lambda>kv. concurrency_keyword (fst kv)) (construct_keywords (lambda_to_opensearch p)) = []"
  "filter (\<lambda>kv. concurrency_keyword (fst kv)) (construct_keywords (lambda_opensearch_mapping p)) = []"
  "filter (\<lambda>kv. concurrency_keyword (fst kv)) (construct_keywords (task_opensearch_mapping p)) = []"
  "filter (\<lambda>kv. concurrency_keyword (fst kv)) (construct_keywords (set_meta_data_function p)) = []"
  "filter (\<lambda>kv. concurrency_keyword (fst kv)) (construct_keywords (set_meta_data_task p)) = []"
  "filter (\<lambda>kv. concurrency_keyword (fst kv)) (construct_keywords map_state) = []"
  "filter (\<lambda>kv. concurrency_keyword (fst kv)) (construct_keywords (state_machine workflow_chain)) = []"
  "filter (\<lambda>kv. concurrency_keyword (fst kv))
     (construct_keywords (sf_executions_start_throttle workflow_chain)) =
   [(''executions_concurrency_threshold'', N 550), (''sqs_batch'', N 10)]"
  "filter (\<lambda>kv. concurrency_keyword (fst kv)) (construct_keywords DocumentUploadLocation) = []"
  "filter (\<lambda>kv. concurrency_keyword (fst kv))
     (construct_keywords (StepFunctionFlowLink p workflow_chain)) = []"
  "filter (\<lambda>kv. concurrency_keyword (fst kv))
     (construct_keywords (DocumentQueueLink p workflow_chain)) = []"
  "filter (\<lambda>kv. concurrency_keyword (fst kv)) (construct_keywords (OpenSearchDashboard p)) = []"
  "filter (\<lambda>kv. concurrency_keyword (fst kv)) (construct_keywords (OpenSearchLink p)) = []"
  "filter (\<lambda>kv. concurrency_keyword (fst kv)) (construct_keywords (CognitoUserPoolLink p)) = []"
  by code_simp+

text \<open>
  The constructs that are given the state machine, and the event sources of each construct.
  The region and the account of the stack come from outside the file: the constructs that
  use them mention the state machine only if those two do.
\<close>

lemma state_machine_users:
  "\<not> mentions ''OpenSearchWorkflow'' document_bucket"
  "\<not> mentions ''OpenSearchWorkflow'' decider_task"
  "\<not> mentions ''OpenSearchWorkflow'' document_splitter_task"
  "\<not> mentions ''OpenSearchWorkflow'' textract_async_task"
  "\<not> mentions ''OpenSearchWorkflow'' textract_async_to_json"
  "\<not> mentions ''OpenSearchWorkflow'' generate_open_search_batch"
  "\<not> mentions ''OpenSearchWorkflow'' (lambda_opensearch_push p)"
  "\<not> mentions ''OpenSearchWorkflow'' (task_lambda_opensearch_push p)"
  "\<not> mentions ''OpenSearchWorkflow'' (lambda_opensearch_mapping p)"
  "\<not> mentions ''OpenSearchWorkflow'' (task_opensearch_mapping p)"
  "\<not> mentions ''OpenSearchWorkflow'' (set_meta_data_function p)"
  "\<not> mentions ''OpenSearchWorkflow'' (set_meta_data_task p)"
  "\<not> mentions ''OpenSearchWorkflow'' map_state"
  "\<not> mentions ''OpenSearchWorkflow'' (state_machine workflow_chain)"
  "mentions ''OpenSearchWorkflow'' (sf_executions_start_throttle workflow_chain)"
  "\<not> mentions ''OpenSearchWorkflow'' DocumentUploadLocation"
  by code_simp+

lemma state_machine_link:
  "mentions ''OpenSearchWorkflow'' (StepFunctionFlowLink p workflow_chain)"
  by (simp add: mentions_def construct_tokens_def construct_values_def value_tokens_def
      StepFunctionFlowLink_def CfnOutput_def attr_defs state_machine_def workflow_name_def)

lemma state_machine_users_region:
  assumes "''OpenSearchWorkflow'' \<notin> fst ` set (tokens (current_region p))"
    and "''OpenSearchWorkflow'' \<notin> fst ` set (tokens (account_id p))"
  shows "\<not> mentions ''OpenSearchWorkflow'' (lambda_to_opensearch p)"
    and "\<not> mentions ''OpenSearchWorkflow'' (DocumentQueueLink p workflow_chain)"
    and "\<not> mentions ''OpenSearchWorkflow'' (OpenSearchDashboard p)"
    and "\<not> mentions ''OpenSearchWorkflow'' (OpenSearchLink p)"
    and "\<not> mentions ''OpenSearchWorkflow'' (CognitoUserPoolLink p)"
  using assms
  by (simp_all add: mentions_def construct_refs_def construct_tokens_def construct_values_def
      value_refs_def value_tokens_def lambda_to_opensearch_def DocumentQueueLink_def
      OpenSearchDashboard_def OpenSearchLink_def CognitoUserPoolLink_def CfnOutput_def
      queue_url_urlencoded_def attr_defs sf_executions_start_throttle_def
      lambda_opensearch_push_def)

lemma construct_event_sources:
  "filter is_event_source (construct_values document_bucket) = []"
  "filter is_event_source (construct_values decider_task) = []"
  "filter is_event_source (construct_values document_splitter_task) = []"
  "filter is_event_source (construct_values textract_async_task) = []"
  "filter is_event_source (construct_values textract_async_to_json) = []"
  "filter is_event_source (construct_values generate_open_search_batch) = []"
  "filter is_event_source (construct_values (lambda_opensearch_push p)) = []"
  "filter is_event_source (construct_values (task_lambda_opensearch_push p)) = []"
  "filter is_event_source (construct_values (lambda_to_opensearch p)) = []"
  "filter is_event_source (construct_values (lambda_opensearch_mapping p)) = []"
  "filter is_event_source (construct_values (task_opensearch_mapping p)) = []"
  "filter is_event_source (construct_values (set_meta_data_function p)) = []"
  "filter is_event_source (construct_values (set_meta_data_task p)) = []"
  "filter is_event_source (construct_values map_state) = []"
  "filter is_event_source (construct_values (state_machine workflow_chain)) = []"
  "filter is_event_source (construct_values (sf_executions_start_throttle workflow_chain)) =
     [s3_event_source]"
  "filter is_event_source (construct_values DocumentUploadLocation) = []"
  "filter is_event_source (construct_values (StepFunctionFlowLink p workflow_chain)) = []"
  "filter is_event_source (construct_values (DocumentQueueLink p workflow_chain)) = []"
  "filter is_event_source (construct_values (OpenSearchDashboard p)) = []"
  "filter is_event_source (construct_values (OpenSearchLink p)) = []"
  "filter is_event_source (construct_values (CognitoUserPoolLink p)) = []"
  by code_simp+

text \<open>The keywords of each construct, at any depth, that name a bucket.\<close>

lemma bucket_keywords:
  "filter (\<lambda>kv. occurs ''bucket'' (fst kv)) (construct_keywords document_bucket) =
     []"
  "filter (\<lambda>kv. occurs ''bucket'' (fst kv)) (construct_keywords decider_task) =
     []"
  "filter (\<lambda>kv. occurs ''bucket'' (fst kv)) (construct_keywords document_splitter_task) =
     [(''s3_output_bucket'', S (bucket_name document_bucket))]"
  "filter (\<lambda>kv. occurs ''bucket'' (fst kv)) (construct_keywords textract_async_task) =
     [(''s3_output_bucket'', S (bucket_name document_bucket))]"
  "filter (\<lambda>kv. occurs ''bucket'' (fst kv)) (construct_keywords textract_async_to_json) =
     [(''s3_output_bucket'', S (bucket_name document_bucket))]"
  "filter (\<lambda>kv. occurs ''bucket'' (fst kv)) (construct_keywords generate_open_search_batch) =
     [(''csv_s3_output_bucket'', S (bucket_name document_bucket))]"
  "filter (\<lambda>kv. occurs ''bucket'' (fst kv)) (construct_keywords (lambda_opensearch_push p)) =
     []"
  "filter (\<lambda>kv. occurs ''bucket'' (fst kv)) (construct_keywords (task_lambda_opensearch_push p)) =
     []"
  "filter (\<lambda>kv. occurs ''bucket'' (fst kv)) (construct_keywords (lambda_to_opensearch p)) =
     []"
  "filter (\<lambda>kv. occurs ''bucket'' (fst kv)) (construct_keywords (lambda_opensearch_mapping p)) =
     []"
  "filter (\<lambda>kv. occurs ''bucket'' (fst kv)) (construct_keywords (task_opensearch_mapping p)) =
     []"
  "filter (\<lambda>kv. occurs ''bucket'' (fst kv)) (construct_keywords (set_meta_data_function p)) =
     []"
  "filter (\<lambda>kv. occurs ''bucket'' (fst kv)) (construct_keywords (set_meta_data_task p)) =
     []"
  "filter (\<lambda>kv. occurs ''bucket'' (fst kv)) (construct_keywords map_state) =
     []"
  "filter (\<lambda>kv. occurs ''bucket'' (fst kv)) (construct_keywords (state_machine workflow_chain)) =
     []"
  "filter (\<lambda>kv. occurs ''bucket'' (fst kv)) (construct_keywords (sf_executions_start_throttle workflow_chain)) =
     []"
  "filter (\<lambda>kv. occurs ''bucket'' (fst kv)) (construct_keywords DocumentUploadLocation) =
     []"
  "filter (\<lambda>kv. occurs ''bucket'' (fst kv)) (construct_keywords (StepFunctionFlowLink p workflow_chain)) =
     []"
  "filter (\<lambda>kv. occurs ''bucket'' (fst kv)) (construct_keywords (DocumentQueueLink p workflow_chain)) =
     []"
  "filter (\<lambda>kv. occurs ''bucket'' (fst kv)) (construct_keywords (OpenSearchDashboard p)) =
     []"
  "filter (\<lambda>kv. occurs ''bucket'' (fst kv)) (construct_keywords (OpenSearchLink p)) =
     []"
  "filter (\<lambda>kv. occurs ''bucket'' (fst kv)) (construct_keywords (CognitoUserPoolLink p)) =
     []"
  by code_simp+

text \<open>
  A bucket without the two settings survives the deletion of its stack, and so does a bucket
  that is to be destroyed but is not emptied first and still holds an object.
\<close>

lemma delete_bucket_retained:
  "kwarg c ''removal_policy'' \<noteq> Some (E ''RemovalPolicy.DESTROY'') \<Longrightarrow> delete_bucket c st = st"
  by (simp add: delete_bucket_def)

lemma delete_bucket_not_empty:
  "kwarg c ''auto_delete_objects'' \<noteq> Some (B True) \<Longrightarrow> bucket_objects (cid c) st \<noteq> []
     \<Longrightarrow> delete_bucket c st = st"
  by (simp add: delete_bucket_def)

text \<open>
  The Map state: the arguments of its \<^verbatim>\<open>States.Format\<close> expression, the paths of its
  template, and the input of one iteration and of all of them.
\<close>

lemma s3Path_arguments:
  "map trim (split_args False [] (butlast (drop 14 s3Path_expression))) =
     [[CHR 0x27] @ ''s3://{}/{}/{}'' @ [CHR 0x27], ''$.documentSplitterS3OutputBucket'',
      ''$.documentSplitterS3OutputPath'', ''$$.Map.Item.Value'']"
  by (simp add: s3Path_expression_def trim_def)

lemma s3Path_template:
  "unquote ([CHR 0x27] @ ''s3://{}/{}/{}'' @ [CHR 0x27]) = Some ''s3://{}/{}/{}''"
  by (simp add: unquote_def)

lemma s3Path_fill: "fill ''s3://{}/{}/{}'' [b, pth, v] = Some (''s3://'' @ b @ ''/'' @ pth @ ''/'' @ v)"
  by simp

lemma bind_get_fields_Nil: "(x \<bind> get_fields []) = x"
  by (cases x) simp_all

lemma json_path_field:
  "json_path ''$.pages'' inp = get_field inp ''pages''"
  "json_path ''$.documentSplitterS3OutputBucket'' inp = get_field inp ''documentSplitterS3OutputBucket''"
  "json_path ''$.documentSplitterS3OutputPath'' inp = get_field inp ''documentSplitterS3OutputPath''"
  "json_path ''$.mime'' inp = get_field inp ''mime''"
  "json_path ''$.originFileURI'' inp = get_field inp ''originFileURI''"
  by (simp_all add: json_path_def bind_get_fields_Nil)

lemma json_path_item: "json_path ''$.Map.Item.Value'' (Map_item_context i v) = Some v"
  by (simp add: json_path_def Map_item_context_def)

lemma Map_iteration_input_item:
  assumes "get_field inp ''documentSplitterS3OutputBucket'' = Some (JString b)"
    and "get_field inp ''documentSplitterS3OutputPath'' = Some (JString pth)"
    and "get_field inp ''mime'' = Some m"
    and "get_field inp ''originFileURI'' = Some u"
  shows "Map_iteration_input map_state inp i (JString x) =
     Some (JObject [(''manifest'', JObject [(''s3Path'',
                       JString (''s3://'' @ b @ ''/'' @ pth @ ''/'' @ x))]),
                    (''mime'', m), (''originFileURI'', u)])"
proof -
  let ?ctx = "Map_item_context i (JString x)"
  have a1: "string_argument inp ?ctx ''$.documentSplitterS3OutputBucket'' = Some b"
    by (simp add: string_argument_def eval_reference_def json_path_field assms)
  have a2: "string_argument inp ?ctx ''$.documentSplitterS3OutputPath'' = Some pth"
    by (simp add: string_argument_def eval_reference_def json_path_field assms)
  have a3: "string_argument inp ?ctx ''$$.Map.Item.Value'' = Some x"
    by (simp add: string_argument_def eval_reference_def json_path_item)
  have f: "States_Format inp ?ctx (butlast (drop 14 s3Path_expression)) =
      Some (JString (''s3://'' @ b @ ''/'' @ pth @ ''/'' @ x))"
    unfolding States_Format_def s3Path_arguments
    by (simp add: a1 a2 a3 s3Path_template[simplified] s3Path_fill[simplified])
  have e1: "eval_expression inp ?ctx s3Path_expression =
      Some (JString (''s3://'' @ b @ ''/'' @ pth @ ''/'' @ x))"
    unfolding eval_expression_def f[symmetric] by (simp add: s3Path_expression_def)
  have e2: "eval_expression inp ?ctx ''$.mime'' = Some m"
    by (simp add: eval_expression_def eval_reference_def json_path_field assms)
  have e3: "eval_expression inp ?ctx ''$.originFileURI'' = Some u"
    by (simp add: eval_expression_def eval_reference_def json_path_field assms)
  show ?thesis
    by (simp add: Map_iteration_input_def map_state_def kwarg_def JsonPath_string_at_def e1 e2 e3)
qed

lemma Map_iteration_inputs_items:
  assumes "get_field inp ''documentSplitterS3OutputBucket'' = Some (JString b)"
    and "get_field inp ''documentSplitterS3OutputPath'' = Some (JString pth)"
    and "get_field inp ''mime'' = Some m"
    and "get_field inp ''originFileURI'' = Some u"
  shows "those (map (\<lambda>(i, v). Map_iteration_input map_state inp i v)
                 (enumerate n (map JString xs))) =
     Some (map (\<lambda>x. JObject [(''manifest'', JObject [(''s3Path'',
                         JString (''s3://'' @ b @ ''/'' @ pth @ ''/'' @ x))]),
                      (''mime'', m), (''originFileURI'', u)]) xs)"
proof (induction xs arbitrary: n)
  case Nil
  show ?case by simp
next
  case (Cons x xs)
  show ?case
    by (simp add: Map_iteration_input_item[OF assms] Cons.IH)
qed

section \<open>The claims\<close>

text \<open>
  C1. The workflow chain sequences the constructs in the order decider, splitter, Map state,
  and the iterator of the Map state is the chain async extraction, JSON merge, metadata
  tagging, bulk generation, push, search-indexing mapping step. For every run of the
  constructor: the state machine's definition is the workflow chain, which starts at the
  decider; the transitions of the stack are exactly the seven listed (there is no other);
  the only iterator is that of the Map state and starts at the async extraction task;
  following the successors from either start gives the two sequences; and the nine states
  are pairwise different.
\<close>

theorem workflow_sequence: 
  "\<exists>s w. OpenSearchWorkflow p = Some (s, w)
     \<and> state_machine w \<in> set (constructs s)
     \<and> kwarg (state_machine w) ''definition'' = Some (chain_value w)
     \<and> start_state w = cid decider_task
     \<and> transitions s =
         [(cid textract_async_task, cid textract_async_to_json),
          (cid textract_async_to_json, cid (set_meta_data_task p)),
          (cid (set_meta_data_task p), cid generate_open_search_batch),
          (cid generate_open_search_batch, cid (task_lambda_opensearch_push p)),
          (cid (task_lambda_opensearch_push p), cid (task_opensearch_mapping p)),
          (cid decider_task, cid document_splitter_task),
          (cid document_splitter_task, cid map_state)]
     \<and> iterators s = [(cid map_state, cid textract_async_task)]
     \<and> sequence_from s (start_state w) =
         [cid decider_task, cid document_splitter_task, cid map_state]
     \<and> sequence_from s (cid textract_async_task) =
         [cid textract_async_task, cid textract_async_to_json, cid (set_meta_data_task p),
          cid generate_open_search_batch, cid (task_lambda_opensearch_push p),
          cid (task_opensearch_mapping p)]
     \<and> distinct (map cid
         [decider_task, document_splitter_task, map_state, textract_async_task,
          textract_async_to_json, set_meta_data_task p, generate_open_search_batch,
          task_lambda_opensearch_push p, task_opensearch_mapping p])"
proof -
  obtain s w where run: "OpenSearchWorkflow p = Some (s, w)"
    using runs by blast
  note b = built[OF run]
  have sm: "state_machine w \<in> set (constructs s)"
    by (simp add: b)
  have d: "kwarg (state_machine w) ''definition'' = Some (chain_value w)"
    by (simp add: kwarg_def state_machine_def)
  have st: "start_state w = cid decider_task"
    by (simp add: b workflow_chain_def)
  have seq1: "sequence_from s (start_state w) =
         [cid decider_task, cid document_splitter_task, cid map_state]"
    by (simp add: sequence_from_def b workflow_chain_def cid_simps numeral_nat)
  have seq2: "sequence_from s (cid textract_async_task) =
         [cid textract_async_task, cid textract_async_to_json, cid (set_meta_data_task p),
          cid generate_open_search_batch, cid (task_lambda_opensearch_push p),
          cid (task_opensearch_mapping p)]"
    by (simp add: sequence_from_def b cid_simps numeral_nat)
  have dist: "distinct (map cid
         [decider_task, document_splitter_task, map_state, textract_async_task,
          textract_async_to_json, set_meta_data_task p, generate_open_search_batch,
          task_lambda_opensearch_push p, task_opensearch_mapping p])"
    by (simp add: cid_simps)
  have tr: "transitions s =
         [(cid textract_async_task, cid textract_async_to_json),
          (cid textract_async_to_json, cid (set_meta_data_task p)),
          (cid (set_meta_data_task p), cid generate_open_search_batch),
          (cid generate_open_search_batch, cid (task_lambda_opensearch_push p)),
          (cid (task_lambda_opensearch_push p), cid (task_opensearch_mapping p)),
          (cid decider_task, cid document_splitter_task),
          (cid document_splitter_task, cid map_state)]"
    by (simp add: b cid_simps)
  have it: "iterators s = [(cid map_state, cid textract_async_task)]"
    by (simp add: b cid_simps)
  from run sm d st tr it seq1 seq2 dist show ?thesis by blast
qed

text \<open>
  C2. The Map state of the stack iterates over the array at \<^verbatim>\<open>$.pages\<close> of its input,
  the output of the splitter. When the pages are strings and the input has the splitter's
  output bucket and output path as strings, a \<^verbatim>\<open>mime\<close> and an \<^verbatim>\<open>originFileURI\<close>, the
  workflow service gives each iteration, in the order of the pages, the object whose
  \<^verbatim>\<open>manifest.s3Path\<close> is \<^verbatim>\<open>s3://\<close>, the bucket, a slash, the path, a slash and the page,
  and whose \<^verbatim>\<open>mime\<close> and \<^verbatim>\<open>originFileURI\<close> are those of the input, unchanged.
\<close>

theorem map_payload_contract:
  assumes "get_field inp ''pages'' = Some (JArray (map JString xs))"
    and "get_field inp ''documentSplitterS3OutputBucket'' = Some (JString b)"
    and "get_field inp ''documentSplitterS3OutputPath'' = Some (JString pth)"
    and "get_field inp ''mime'' = Some m"
    and "get_field inp ''originFileURI'' = Some u"
  shows "\<exists>s w. OpenSearchWorkflow p = Some (s, w)
     \<and> of_class ''sfn.Map'' s = [map_state]
     \<and> (cid document_splitter_task, cid map_state) \<in> set (transitions s)
     \<and> kwarg map_state ''items_path'' = Some (JsonPath ''$.pages'')
     \<and> Map_items map_state inp = Some (map JString xs)
     \<and> Map_iteration_inputs map_state inp =
         Some (map (\<lambda>x. JObject [(''manifest'', JObject [(''s3Path'',
                             JString (''s3://'' @ b @ ''/'' @ pth @ ''/'' @ x))]),
                          (''mime'', m), (''originFileURI'', u)]) xs)"
proof -
  obtain s w where run: "OpenSearchWorkflow p = Some (s, w)"
    using runs by blast
  note b = built[OF run]
  have oc: "of_class ''sfn.Map'' s = [map_state]"
    by (simp add: of_class_def b cls_simps)
  have tr: "(cid document_splitter_task, cid map_state) \<in> set (transitions s)"
    by (simp add: b cid_simps)
  have ip: "kwarg map_state ''items_path'' = Some (JsonPath ''$.pages'')"
    by (simp add: kwarg_def map_state_def JsonPath_string_at_def)
  have it: "Map_items map_state inp = Some (map JString xs)"
    by (simp add: Map_items_def ip json_path_field assms(1))
  have ins: "Map_iteration_inputs map_state inp =
         Some (map (\<lambda>x. JObject [(''manifest'', JObject [(''s3Path'',
                             JString (''s3://'' @ b @ ''/'' @ pth @ ''/'' @ x))]),
                          (''mime'', m), (''originFileURI'', u)]) xs)"
    by (simp add: Map_iteration_inputs_def it Map_iteration_inputs_items[OF assms(2-5)])
  show ?thesis
    by (rule exI[of _ s], rule exI[of _ w]) (intro conjI run oc tr ip it ins)
qed

theorem map_payload_contract_witness:
  "get_field example_input ''pages'' =
     Some (JArray (map JString [''page-0.pdf'', ''page-1.pdf'']))
   \<and> get_field example_input ''documentSplitterS3OutputBucket'' = Some (JString ''bucket-1'')
   \<and> get_field example_input ''documentSplitterS3OutputPath'' =
       Some (JString ''textract-output/doc/splits'')
   \<and> get_field example_input ''mime'' = Some (JString ''application/pdf'')
   \<and> get_field example_input ''originFileURI'' = Some (JString ''s3://bucket-1/uploads/doc.pdf'')
   \<and> Map_items map_state example_input = Some [JString ''page-0.pdf'', JString ''page-1.pdf'']
   \<and> Map_iteration_inputs map_state example_input =
       Some [JObject [(''manifest'', JObject [(''s3Path'',
                         JString ''s3://bucket-1/textract-output/doc/splits/page-0.pdf'')]),
                      (''mime'', JString ''application/pdf''),
                      (''originFileURI'', JString ''s3://bucket-1/uploads/doc.pdf'')],
             JObject [(''manifest'', JObject [(''s3Path'',
                         JString ''s3://bucket-1/textract-output/doc/splits/page-1.pdf'')]),
                      (''mime'', JString ''application/pdf''),
                      (''originFileURI'', JString ''s3://bucket-1/uploads/doc.pdf'')]]"
proof -
  have h1: "get_field example_input ''pages'' =
     Some (JArray (map JString [''page-0.pdf'', ''page-1.pdf'']))"
    by (simp add: example_input_def)
  have h2: "get_field example_input ''documentSplitterS3OutputBucket'' = Some (JString ''bucket-1'')"
    by (simp add: example_input_def)
  have h3: "get_field example_input ''documentSplitterS3OutputPath'' =
       Some (JString ''textract-output/doc/splits'')"
    by (simp add: example_input_def)
  have h4: "get_field example_input ''mime'' = Some (JString ''application/pdf'')"
    by (simp add: example_input_def)
  have h5: "get_field example_input ''originFileURI'' =
      Some (JString ''s3://bucket-1/uploads/doc.pdf'')"
    by (simp add: example_input_def)
  from map_payload_contract[where p = example_params, OF h1 h2 h3 h4 h5]
  have it: "Map_items map_state example_input = Some (map JString [''page-0.pdf'', ''page-1.pdf''])"
    and ins: "Map_iteration_inputs map_state example_input =
         Some (map (\<lambda>x. JObject [(''manifest'', JObject [(''s3Path'',
                 JString (''s3://'' @ ''bucket-1'' @ ''/'' @ ''textract-output/doc/splits'' @ ''/'' @ x))]),
                          (''mime'', JString ''application/pdf''),
                          (''originFileURI'', JString ''s3://bucket-1/uploads/doc.pdf'')])
               [''page-0.pdf'', ''page-1.pdf''])"
    by blast+
  have it': "Map_items map_state example_input =
      Some [JString ''page-0.pdf'', JString ''page-1.pdf'']"
    using it by simp
  have ins': "Map_iteration_inputs map_state example_input =
       Some [JObject [(''manifest'', JObject [(''s3Path'',
                         JString ''s3://bucket-1/textract-output/doc/splits/page-0.pdf'')]),
                      (''mime'', JString ''application/pdf''),
                      (''originFileURI'', JString ''s3://bucket-1/uploads/doc.pdf'')],
             JObject [(''manifest'', JObject [(''s3Path'',
                         JString ''s3://bucket-1/textract-output/doc/splits/page-1.pdf'')]),
                      (''mime'', JString ''application/pdf''),
                      (''originFileURI'', JString ''s3://bucket-1/uploads/doc.pdf'')]]"
    using ins by simp
  show ?thesis
    by (intro conjI h1 h2 h3 h4 h5 it' ins')
qed

text \<open>
  C3. Every \<^verbatim>\<open>tasks.LambdaInvoke\<close> step of the file carries a retry policy that names
  \<^verbatim>\<open>Lambda.TooManyRequestsException\<close> and allows at least 10000 attempts: 100000 for
  OpenSearchPushInvoke (which also retries on OpenSearchConnectionTimeout), 100000 for
  TaskOpenSearchMapping, 10000 for SetMetaData. These three policies are all the retry
  policies the file adds, and it adds no error handler to any step.
\<close>

theorem retry_policies:
  "\<exists>s w. OpenSearchWorkflow p = Some (s, w)
     \<and> map cid (of_class ''tasks.LambdaInvoke'' s) =
         [''OpenSearchPushInvoke'', ''TaskOpenSearchMapping'', ''SetMetaData'']
     \<and> retries s =
         [(''OpenSearchPushInvoke'',
             \<lparr>max_attempts = 100000,
              errors = [''Lambda.TooManyRequestsException'', ''OpenSearchConnectionTimeout'']\<rparr>),
          (''TaskOpenSearchMapping'',
             \<lparr>max_attempts = 100000, errors = [''Lambda.TooManyRequestsException'']\<rparr>),
          (''SetMetaData'',
             \<lparr>max_attempts = 10000, errors = [''Lambda.TooManyRequestsException'']\<rparr>)]
     \<and> catches s = []
     \<and> (\<forall>c \<in> set (of_class ''tasks.LambdaInvoke'' s).
           \<exists>r. (cid c, r) \<in> set (retries s)
              \<and> ''Lambda.TooManyRequestsException'' \<in> set (errors r)
              \<and> 10000 \<le> max_attempts r)"
proof -
  obtain s w where run: "OpenSearchWorkflow p = Some (s, w)"
    using runs by blast
  note b = built[OF run]
  have li: "of_class ''tasks.LambdaInvoke'' s =
      [task_lambda_opensearch_push p, task_opensearch_mapping p, set_meta_data_task p]"
    by (simp add: of_class_def b cls_simps)
  have ids: "map cid (of_class ''tasks.LambdaInvoke'' s) =
         [''OpenSearchPushInvoke'', ''TaskOpenSearchMapping'', ''SetMetaData'']"
    by (simp add: li cid_simps)
  have all: "\<forall>c \<in> set (of_class ''tasks.LambdaInvoke'' s).
           \<exists>r. (cid c, r) \<in> set (retries s)
              \<and> ''Lambda.TooManyRequestsException'' \<in> set (errors r)
              \<and> 10000 \<le> max_attempts r"
    unfolding li b(5) by (simp add: cid_simps)
  show ?thesis
    by (rule exI[of _ s], rule exI[of _ w]) (intro conjI run ids b(5) b(6) all)
qed

theorem retry_policies_witness:
  "\<exists>s w. OpenSearchWorkflow example_params = Some (s, w)
     \<and> of_class ''tasks.LambdaInvoke'' s \<noteq> []
     \<and> (\<forall>c \<in> set (of_class ''tasks.LambdaInvoke'' s).
           \<exists>r. (cid c, r) \<in> set (retries s)
              \<and> ''Lambda.TooManyRequestsException'' \<in> set (errors r)
              \<and> 10000 \<le> max_attempts r)"
  using retry_policies[of example_params] by fastforce

text \<open>
  C4. The throttle construct \<^verbatim>\<open>SFExecutionsStartThrottle\<close> is instantiated once and
  receives \<^verbatim>\<open>executions_concurrency_threshold = 550\<close>, \<^verbatim>\<open>sqs_batch = 10\<close> and the ARN
  of the state machine; the stack has one state machine, whose definition is the workflow
  chain that starts at the decider. No other keyword of any construct, at any depth, names a
  concurrency or a batch size: those two are all the concurrency settings of the stack.
\<close>

theorem throttle_configuration:
  "\<exists>s w. OpenSearchWorkflow p = Some (s, w)
     \<and> of_class ''tcdk.SFExecutionsStartThrottle'' s = [sf_executions_start_throttle w]
     \<and> kwarg (sf_executions_start_throttle w) ''executions_concurrency_threshold'' = Some (N 550)
     \<and> kwarg (sf_executions_start_throttle w) ''sqs_batch'' = Some (N 10)
     \<and> kwarg (sf_executions_start_throttle w) ''state_machine_arn'' =
         Some (S (state_machine_arn (state_machine w)))
     \<and> of_class ''sfn.StateMachine'' s = [state_machine w]
     \<and> kwarg (state_machine w) ''definition'' = Some (chain_value w)
     \<and> start_state w = cid decider_task
     \<and> concurrency_settings s =
         [(''ExecutionThrottle'', ''executions_concurrency_threshold'', N 550),
          (''ExecutionThrottle'', ''sqs_batch'', N 10)]"
proof -
  obtain s w where run: "OpenSearchWorkflow p = Some (s, w)"
    using runs by blast
  note b = built[OF run]
  have th: "of_class ''tcdk.SFExecutionsStartThrottle'' s = [sf_executions_start_throttle w]"
    by (simp add: of_class_def b cls_simps)
  have k1: "kwarg (sf_executions_start_throttle w) ''executions_concurrency_threshold'' =
      Some (N 550)"
    by (simp add: kwarg_def sf_executions_start_throttle_def)
  have k2: "kwarg (sf_executions_start_throttle w) ''sqs_batch'' = Some (N 10)"
    by (simp add: kwarg_def sf_executions_start_throttle_def)
  have k3: "kwarg (sf_executions_start_throttle w) ''state_machine_arn'' =
         Some (S (state_machine_arn (state_machine w)))"
    by (simp add: kwarg_def sf_executions_start_throttle_def)
  have sm: "of_class ''sfn.StateMachine'' s = [state_machine w]"
    by (simp add: of_class_def b cls_simps)
  have d: "kwarg (state_machine w) ''definition'' = Some (chain_value w)"
    by (simp add: kwarg_def state_machine_def)
  have st: "start_state w = cid decider_task"
    by (simp add: b workflow_chain_def)
  have cs: "concurrency_settings s =
         [(''ExecutionThrottle'', ''executions_concurrency_threshold'', N 550),
          (''ExecutionThrottle'', ''sqs_batch'', N 10)]"
    by (simp add: concurrency_settings_def b(2) concurrency_keywords cid_simps)
  show ?thesis
    by (rule exI[of _ s], rule exI[of _ w]) (intro conjI run th k1 k2 k3 sm d st cs)
qed

text \<open>
  C5. The stack exports exactly six outputs, in this order: the upload location
  (an \<^verbatim>\<open>s3://\<close> URL), the console link of the workflow, the console link of the queue,
  the dashboard URL of the search domain, the console link of the search domain, and the
  console link of the user pool. The theorem gives the deployed value of each under any
  deployment \<open>\<rho>\<close>.
\<close>

theorem stack_outputs:
  "\<exists>s w. OpenSearchWorkflow p = Some (s, w)
     \<and> map cid (of_class ''CfnOutput'' s) =
         [''DocumentUploadLocation'', ''StepFunctionFlowLink'', ''DocumentQueueLink'',
          ''OpenSearchDashboard'', ''OpenSearchLink'', ''CognitoUserPoolLink'']
     \<and> map_option (resolve \<rho>) (output_value s ''DocumentUploadLocation'') =
         Some (''s3://'' @ \<rho> (cid document_bucket) ''bucket_name'' @ ''/uploads/'')
     \<and> map_option (resolve \<rho>) (output_value s ''StepFunctionFlowLink'') =
         Some (''https://'' @ resolve \<rho> (current_region p)
               @ ''.console.aws.amazon.com/states/home?region='' @ resolve \<rho> (current_region p)
               @ ''#/statemachines/view/'' @ \<rho> (cid (state_machine w)) ''state_machine_arn'')
     \<and> map_option (resolve \<rho>) (output_value s ''DocumentQueueLink'') =
         Some (''https://'' @ resolve \<rho> (current_region p)
               @ ''.console.aws.amazon.com/sqs/v2/home?region='' @ resolve \<rho> (current_region p)
               @ ''#/queues/'' @ resolve \<rho> (queue_url_urlencoded p w))
     \<and> map_option (resolve \<rho>) (output_value s ''OpenSearchDashboard'') =
         Some (''https://''
               @ \<rho> (cid (lambda_to_opensearch p)) ''open_search_domain.attr_domain_endpoint''
               @ ''/_dashboards'')
     \<and> map_option (resolve \<rho>) (output_value s ''OpenSearchLink'') =
         Some (''https://'' @ resolve \<rho> (current_region p)
               @ ''.console.aws.amazon.com/aos/home?region='' @ resolve \<rho> (current_region p)
               @ ''#/opensearch/domains/''
               @ \<rho> (cid (lambda_to_opensearch p)) ''open_search_domain.domain_name'')
     \<and> map_option (resolve \<rho>) (output_value s ''CognitoUserPoolLink'') =
         Some (''https://'' @ resolve \<rho> (current_region p)
               @ ''.console.aws.amazon.com/cognito/v2/idp/user-pools/''
               @ \<rho> (cid (lambda_to_opensearch p)) ''user_pool.user_pool_id''
               @ ''/users?region='' @ resolve \<rho> (current_region p))"
proof -
  obtain s w where run: "OpenSearchWorkflow p = Some (s, w)"
    using runs by blast
  note o = output_values[OF run]
  have ids: "map cid (of_class ''CfnOutput'' s) =
         [''DocumentUploadLocation'', ''StepFunctionFlowLink'', ''DocumentQueueLink'',
          ''OpenSearchDashboard'', ''OpenSearchLink'', ''CognitoUserPoolLink'']"
    by (simp add: o(1) cid_simps)
  have v1: "map_option (resolve \<rho>) (output_value s ''DocumentUploadLocation'') =
         Some (''s3://'' @ \<rho> (cid document_bucket) ''bucket_name'' @ ''/uploads/'')"
    by (simp add: o(2) attr_defs s3_upload_prefix_def)
  have v2: "map_option (resolve \<rho>) (output_value s ''StepFunctionFlowLink'') =
         Some (''https://'' @ resolve \<rho> (current_region p)
               @ ''.console.aws.amazon.com/states/home?region='' @ resolve \<rho> (current_region p)
               @ ''#/statemachines/view/'' @ \<rho> (cid (state_machine w)) ''state_machine_arn'')"
    by (simp add: o(3) attr_defs)
  have v3: "map_option (resolve \<rho>) (output_value s ''DocumentQueueLink'') =
         Some (''https://'' @ resolve \<rho> (current_region p)
               @ ''.console.aws.amazon.com/sqs/v2/home?region='' @ resolve \<rho> (current_region p)
               @ ''#/queues/'' @ resolve \<rho> (queue_url_urlencoded p w))"
    by (simp add: o(4))
  have v4: "map_option (resolve \<rho>) (output_value s ''OpenSearchDashboard'') =
         Some (''https://''
               @ \<rho> (cid (lambda_to_opensearch p)) ''open_search_domain.attr_domain_endpoint''
               @ ''/_dashboards'')"
    by (simp add: o(5) attr_defs)
  have v5: "map_option (resolve \<rho>) (output_value s ''OpenSearchLink'') =
         Some (''https://'' @ resolve \<rho> (current_region p)
               @ ''.console.aws.amazon.com/aos/home?region='' @ resolve \<rho> (current_region p)
               @ ''#/opensearch/domains/''
               @ \<rho> (cid (lambda_to_opensearch p)) ''open_search_domain.domain_name'')"
    by (simp add: o(6) attr_defs)
  have v6: "map_option (resolve \<rho>) (output_value s ''CognitoUserPoolLink'') =
         Some (''https://'' @ resolve \<rho> (current_region p)
               @ ''.console.aws.amazon.com/cognito/v2/idp/user-pools/''
               @ \<rho> (cid (lambda_to_opensearch p)) ''user_pool.user_pool_id''
               @ ''/users?region='' @ resolve \<rho> (current_region p))"
    by (simp add: o(7) attr_defs)
  show ?thesis
    by (rule exI[of _ s], rule exI[of _ w]) (intro conjI run ids v1 v2 v3 v4 v5 v6)
qed

text \<open>
  C6. For every bucket name \<open>b\<close> that the deployment assigns to the document bucket, the
  upload-location output is \<^verbatim>\<open>s3://\<close> followed by \<open>b\<close> and \<^verbatim>\<open>/uploads/\<close>: it points
  into the bucket the stack provisions, under the fixed prefix \<^verbatim>\<open>uploads\<close>.
\<close>

theorem upload_location_value:
  assumes "\<rho> (cid document_bucket) ''bucket_name'' = b"
  shows "\<exists>s w. OpenSearchWorkflow p = Some (s, w)
     \<and> document_bucket \<in> set (constructs s)
     \<and> s3_upload_prefix = ''uploads''
     \<and> map_option (resolve \<rho>) (output_value s ''DocumentUploadLocation'') =
         Some (''s3://'' @ b @ ''/uploads/'')"
proof -
  obtain s w where run: "OpenSearchWorkflow p = Some (s, w)"
    using runs by blast
  have mem: "document_bucket \<in> set (constructs s)"
    by (simp add: built(2)[OF run])
  have v: "map_option (resolve \<rho>) (output_value s ''DocumentUploadLocation'') =
         Some (''s3://'' @ b @ ''/uploads/'')"
    using assms by (simp add: output_values(2)[OF run] attr_defs s3_upload_prefix_def)
  show ?thesis
    by (rule exI[of _ s], rule exI[of _ w]) (intro conjI run mem s3_upload_prefix_def v)
qed

theorem upload_location_value_witness:
  "example_deployment (cid document_bucket) ''bucket_name'' = ''OpenSearchWorkflowBucket.bucket_name''
   \<and> (\<exists>s w. OpenSearchWorkflow example_params = Some (s, w)
     \<and> document_bucket \<in> set (constructs s)
     \<and> s3_upload_prefix = ''uploads''
     \<and> map_option (resolve example_deployment) (output_value s ''DocumentUploadLocation'') =
         Some (''s3://'' @ ''OpenSearchWorkflowBucket.bucket_name'' @ ''/uploads/''))"
proof -
  have h: "example_deployment (cid document_bucket) ''bucket_name'' = ''OpenSearchWorkflowBucket.bucket_name''"
    by (simp add: example_deployment_def cid_simps)
  show ?thesis
    using h upload_location_value[where \<rho> = example_deployment and p = example_params, OF h]
    by blast
qed

text \<open>
  C7. The state machine is handed to two constructs only: the throttle
  \<^verbatim>\<open>SFExecutionsStartThrottle\<close>, which receives its ARN, and the output
  \<^verbatim>\<open>StepFunctionFlowLink\<close>, which prints it and starts nothing. The throttle's event
  source is the only event source of the stack: an S3 event source on the document bucket
  for \<^verbatim>\<open>OBJECT_CREATED\<close> events under the key prefix \<^verbatim>\<open>uploads\<close>, the prefix that the
  upload-location output publishes. The region and the account of the stack, which come
  from outside the file, are assumed not to be attributes of the state machine.
\<close>

theorem execution_trigger:
  assumes "''OpenSearchWorkflow'' \<notin> fst ` set (tokens (current_region p))"
    and "''OpenSearchWorkflow'' \<notin> fst ` set (tokens (account_id p))"
  shows "\<exists>s w. OpenSearchWorkflow p = Some (s, w)
     \<and> cid (state_machine w) = ''OpenSearchWorkflow''
     \<and> filter (mentions (cid (state_machine w))) (constructs s) =
         [sf_executions_start_throttle w, StepFunctionFlowLink p w]
     \<and> cls (sf_executions_start_throttle w) = ''tcdk.SFExecutionsStartThrottle''
     \<and> cls (StepFunctionFlowLink p w) = ''CfnOutput''
     \<and> kwarg (sf_executions_start_throttle w) ''state_machine_arn'' =
         Some (S (state_machine_arn (state_machine w)))
     \<and> kwarg (sf_executions_start_throttle w) ''event_source'' = Some (L [s3_event_source])
     \<and> event_sources s = [(cid (sf_executions_start_throttle w), s3_event_source)]
     \<and> s3_event_source =
         Obj ''eventsources.S3EventSource'' [R (cid document_bucket)]
           [(''events'', L [E ''s3.EventType.OBJECT_CREATED'']),
            (''filters'', L [Obj ''s3.NotificationKeyFilter'' []
                               [(''prefix'', S (Lit ''uploads''))]])]
     \<and> map_option (resolve \<rho>) (output_value s ''DocumentUploadLocation'') =
         Some (''s3://'' @ \<rho> (cid document_bucket) ''bucket_name'' @ ''/'' @ ''uploads'' @ ''/'')"
proof -
  obtain s w where run: "OpenSearchWorkflow p = Some (s, w)"
    using runs by blast
  note b = built[OF run]
  note u = state_machine_users state_machine_link state_machine_users_region[OF assms]
  have w: "w = workflow_chain"
    by (rule b(1))
  have n: "cid (state_machine w) = ''OpenSearchWorkflow''"
    by (simp add: cid_simps)
  have us: "filter (mentions (cid (state_machine w))) (constructs s) =
         [sf_executions_start_throttle w, StepFunctionFlowLink p w]"
    unfolding b(2) w by (simp add: u cid_simps)
  have c1: "cls (sf_executions_start_throttle w) = ''tcdk.SFExecutionsStartThrottle''"
    by (simp add: cls_simps)
  have c2: "cls (StepFunctionFlowLink p w) = ''CfnOutput''"
    by (simp add: cls_simps)
  have k1: "kwarg (sf_executions_start_throttle w) ''state_machine_arn'' =
         Some (S (state_machine_arn (state_machine w)))"
    by (simp add: kwarg_def sf_executions_start_throttle_def)
  have k2: "kwarg (sf_executions_start_throttle w) ''event_source'' = Some (L [s3_event_source])"
    by (simp add: kwarg_def sf_executions_start_throttle_def)
  have es: "event_sources s = [(cid (sf_executions_start_throttle w), s3_event_source)]"
    unfolding event_sources_def b(2) w by (simp add: construct_event_sources)
  have ev: "s3_event_source =
         Obj ''eventsources.S3EventSource'' [R (cid document_bucket)]
           [(''events'', L [E ''s3.EventType.OBJECT_CREATED'']),
            (''filters'', L [Obj ''s3.NotificationKeyFilter'' []
                               [(''prefix'', S (Lit ''uploads''))]])]"
    by (simp add: s3_event_source_def s3_upload_prefix_def)
  have out: "map_option (resolve \<rho>) (output_value s ''DocumentUploadLocation'') =
         Some (''s3://'' @ \<rho> (cid document_bucket) ''bucket_name'' @ ''/'' @ ''uploads'' @ ''/'')"
    by (simp add: output_values(2)[OF run] attr_defs s3_upload_prefix_def)
  show ?thesis
    by (rule exI[of _ s], rule exI[of _ w]) (intro conjI run n us c1 c2 k1 k2 es ev out)
qed

theorem execution_trigger_witness:
  "''OpenSearchWorkflow'' \<notin> fst ` set (tokens (current_region example_params))
   \<and> ''OpenSearchWorkflow'' \<notin> fst ` set (tokens (account_id example_params))
   \<and> (\<exists>s w. OpenSearchWorkflow example_params = Some (s, w)
        \<and> map cid (filter (mentions ''OpenSearchWorkflow'') (constructs s)) =
            [''ExecutionThrottle'', ''StepFunctionFlowLink'']
        \<and> event_sources s = [(''ExecutionThrottle'', s3_event_source)]
        \<and> map_option (resolve example_deployment) (output_value s ''DocumentUploadLocation'') =
            Some ''s3://OpenSearchWorkflowBucket.bucket_name/uploads/'')"
proof -
  have h1: "''OpenSearchWorkflow'' \<notin> fst ` set (tokens (current_region example_params))"
    by (simp add: example_params_def)
  have h2: "''OpenSearchWorkflow'' \<notin> fst ` set (tokens (account_id example_params))"
    by (simp add: example_params_def)
  have d: "example_deployment (cid document_bucket) ''bucket_name'' =
      ''OpenSearchWorkflowBucket.bucket_name''"
    by (simp add: example_deployment_def cid_simps)
  from execution_trigger[where p = example_params and \<rho> = example_deployment, OF h1 h2]
  obtain s w where run: "OpenSearchWorkflow example_params = Some (s, w)"
    and n: "cid (state_machine w) = ''OpenSearchWorkflow''"
    and us: "filter (mentions (cid (state_machine w))) (constructs s) =
         [sf_executions_start_throttle w, StepFunctionFlowLink example_params w]"
    and es: "event_sources s = [(cid (sf_executions_start_throttle w), s3_event_source)]"
    and out: "map_option (resolve example_deployment) (output_value s ''DocumentUploadLocation'') =
         Some (''s3://'' @ example_deployment (cid document_bucket) ''bucket_name'' @ ''/''
               @ ''uploads'' @ ''/'')"
    by blast
  have us': "map cid (filter (mentions ''OpenSearchWorkflow'') (constructs s)) =
            [''ExecutionThrottle'', ''StepFunctionFlowLink'']"
    using us unfolding n by (simp add: cid_simps)
  have es': "event_sources s = [(''ExecutionThrottle'', s3_event_source)]"
    using es by (simp add: cid_simps)
  have out': "map_option (resolve example_deployment) (output_value s ''DocumentUploadLocation'') =
            Some ''s3://OpenSearchWorkflowBucket.bucket_name/uploads/''"
    using out unfolding d by simp
  have ex: "\<exists>s w. OpenSearchWorkflow example_params = Some (s, w)
        \<and> map cid (filter (mentions ''OpenSearchWorkflow'') (constructs s)) =
            [''ExecutionThrottle'', ''StepFunctionFlowLink'']
        \<and> event_sources s = [(''ExecutionThrottle'', s3_event_source)]
        \<and> map_option (resolve example_deployment) (output_value s ''DocumentUploadLocation'') =
            Some ''s3://OpenSearchWorkflowBucket.bucket_name/uploads/''"
    by (rule exI[of _ s], rule exI[of _ w]) (intro conjI run us' es' out')
  show ?thesis
    by (intro conjI h1 h2 ex)
qed

text \<open>
  C8. For every stack name, the prefix computed at line 167,
  \<^verbatim>\<open>re.sub("[^a-zA-Z0-9-]", "", stack_name).lower()[:30]\<close>, consists of characters in
  \<^verbatim>\<open>[a-z0-9-]\<close> only and has at most 30 of them; and the \<^verbatim>\<open>cognito_domain_name\<close>
  passed to \<^verbatim>\<open>LambdaToOpenSearch\<close> is that prefix, a dash, the account id, a dash and the
  region, under any deployment.
\<close>

theorem cognito_domain_prefix:
  "(\<forall>c \<in> set (cognito_stack_name (stack_name p)). lower_alnum_dash c)
   \<and> length (cognito_stack_name (stack_name p)) \<le> 30
   \<and> cognito_stack_name (stack_name p) = take 30 (lower (re_sub_delete (stack_name p)))
   \<and> (\<exists>s w t. OpenSearchWorkflow p = Some (s, w)
        \<and> of_class ''LambdaToOpenSearch'' s = [lambda_to_opensearch p]
        \<and> kwarg (lambda_to_opensearch p) ''cognito_domain_name'' = Some (S t)
        \<and> resolve \<rho> t =
            cognito_stack_name (stack_name p) @ ''-'' @ resolve \<rho> (account_id p)
            @ ''-'' @ resolve \<rho> (current_region p))"
proof -
  obtain s w where run: "OpenSearchWorkflow p = Some (s, w)"
    using runs by blast
  let ?t = "fstring [Lit (cognito_stack_name (stack_name p)), Lit ''-'', account_id p,
                     Lit ''-'', current_region p]"
  have chars: "\<forall>c \<in> set (cognito_stack_name (stack_name p)). lower_alnum_dash c"
    using cognito_stack_name_chars by blast
  have oc: "of_class ''LambdaToOpenSearch'' s = [lambda_to_opensearch p]"
    by (simp add: of_class_def built(2)[OF run] cls_simps)
  have kw: "kwarg (lambda_to_opensearch p) ''cognito_domain_name'' = Some (S ?t)"
    by (simp add: kwarg_def lambda_to_opensearch_def)
  have res: "resolve \<rho> ?t =
            cognito_stack_name (stack_name p) @ ''-'' @ resolve \<rho> (account_id p)
            @ ''-'' @ resolve \<rho> (current_region p)"
    by simp
  have ex: "\<exists>s w t. OpenSearchWorkflow p = Some (s, w)
        \<and> of_class ''LambdaToOpenSearch'' s = [lambda_to_opensearch p]
        \<and> kwarg (lambda_to_opensearch p) ''cognito_domain_name'' = Some (S t)
        \<and> resolve \<rho> t =
            cognito_stack_name (stack_name p) @ ''-'' @ resolve \<rho> (account_id p)
            @ ''-'' @ resolve \<rho> (current_region p)"
    by (rule exI[of _ s], rule exI[of _ w], rule exI[of _ ?t]) (intro conjI run oc kw res)
  show ?thesis
    by (intro conjI chars cognito_stack_name_length cognito_stack_name_def ex)
qed

theorem cognito_domain_prefix_witness:
  "cognito_stack_name (stack_name example_params) = ''idpopensearchstack-1''
   \<and> list_all lower_alnum_dash ''idpopensearchstack-1''
   \<and> (\<exists>s w t. OpenSearchWorkflow example_params = Some (s, w)
        \<and> kwarg (lambda_to_opensearch example_params) ''cognito_domain_name'' = Some (S t)
        \<and> resolve example_deployment t = ''idpopensearchstack-1-123456789012-us-east-1'')"
proof -
  have n: "cognito_stack_name (stack_name example_params) = ''idpopensearchstack-1''"
    by code_simp
  have a: "resolve example_deployment (account_id example_params) = ''123456789012''"
    and r: "resolve example_deployment (current_region example_params) = ''us-east-1''"
    by (simp_all add: example_params_def)
  note inst = cognito_domain_prefix[of example_params example_deployment]
  from inst have "\<forall>c \<in> set (cognito_stack_name (stack_name example_params)). lower_alnum_dash c"
    by (rule conjunct1)
  then have ch: "list_all lower_alnum_dash ''idpopensearchstack-1''"
    unfolding n list_all_iff .
  from inst obtain s w t where run: "OpenSearchWorkflow example_params = Some (s, w)"
    and kw: "kwarg (lambda_to_opensearch example_params) ''cognito_domain_name'' = Some (S t)"
    and res: "resolve example_deployment t =
            cognito_stack_name (stack_name example_params) @ ''-''
            @ resolve example_deployment (account_id example_params)
            @ ''-'' @ resolve example_deployment (current_region example_params)"
    by blast
  from res have res': "resolve example_deployment t = ''idpopensearchstack-1-123456789012-us-east-1''"
    unfolding n a r by simp
  from n ch run kw res' show ?thesis by blast
qed

text \<open>
  C9. When the throttle construct has a document queue, the encoded queue URL in the queue
  console link is the deployed queue URL with every \<^verbatim>\<open>:\<close> replaced by \<^verbatim>\<open>%3A\<close> and every
  \<^verbatim>\<open>/\<close> replaced by \<^verbatim>\<open>%2F\<close>, and decoding those two escapes gives the queue URL back.
  The decoding is stated for a queue URL without a percent sign, as the URL of an SQS queue
  is: host, account number and a queue name of letters, digits, dashes and underscores.
  When there is no document queue, the encoded value is the empty string and the output
  ends in \<^verbatim>\<open>#/queues/\<close>.
\<close>

theorem queue_url_encoding:
  "\<exists>s w. OpenSearchWorkflow p = Some (s, w)
     \<and> map_option (resolve \<rho>) (output_value s ''DocumentQueueLink'') =
         Some (''https://'' @ resolve \<rho> (current_region p)
               @ ''.console.aws.amazon.com/sqs/v2/home?region='' @ resolve \<rho> (current_region p)
               @ ''#/queues/'' @ resolve \<rho> (queue_url_urlencoded p w))
     \<and> (document_queue p \<longrightarrow>
          resolve \<rho> (queue_url_urlencoded p w) =
            escaped (\<rho> (cid (sf_executions_start_throttle w)) ''document_queue.queue_url'')
          \<and> escaped (\<rho> (cid (sf_executions_start_throttle w)) ''document_queue.queue_url'') =
              replace_char (CHR ''/'') ''%2F'' (replace_char (CHR '':'') ''%3A''
                (\<rho> (cid (sf_executions_start_throttle w)) ''document_queue.queue_url''))
          \<and> (CHR ''%'' \<notin> set (\<rho> (cid (sf_executions_start_throttle w)) ''document_queue.queue_url'')
             \<longrightarrow> unescape (resolve \<rho> (queue_url_urlencoded p w)) =
                   \<rho> (cid (sf_executions_start_throttle w)) ''document_queue.queue_url''))
     \<and> (\<not> document_queue p \<longrightarrow>
          resolve \<rho> (queue_url_urlencoded p w) = []
          \<and> map_option (resolve \<rho>) (output_value s ''DocumentQueueLink'') =
              Some (''https://'' @ resolve \<rho> (current_region p)
                    @ ''.console.aws.amazon.com/sqs/v2/home?region=''
                    @ resolve \<rho> (current_region p) @ ''#/queues/''))"
proof -
  obtain s w where run: "OpenSearchWorkflow p = Some (s, w)"
    using runs by blast
  let ?url = "\<rho> (cid (sf_executions_start_throttle w)) ''document_queue.queue_url''"
  have link: "map_option (resolve \<rho>) (output_value s ''DocumentQueueLink'') =
         Some (''https://'' @ resolve \<rho> (current_region p)
               @ ''.console.aws.amazon.com/sqs/v2/home?region='' @ resolve \<rho> (current_region p)
               @ ''#/queues/'' @ resolve \<rho> (queue_url_urlencoded p w))"
    by (simp add: output_values(4)[OF run])
  have enc: "document_queue p \<Longrightarrow> resolve \<rho> (queue_url_urlencoded p w) = escaped ?url"
    by (simp add: queue_url_urlencoded_def document_queue_queue_url_def Fn_join_split
        replace_twice_escaped)
  have rep: "escaped ?url = replace_char (CHR ''/'') ''%2F'' (replace_char (CHR '':'') ''%3A'' ?url)"
    by (simp add: replace_twice_escaped)
  have dec: "document_queue p \<Longrightarrow> CHR ''%'' \<notin> set ?url
      \<Longrightarrow> unescape (resolve \<rho> (queue_url_urlencoded p w)) = ?url"
    by (simp add: enc unescape_escaped no_percent_occurs)
  have none: "\<not> document_queue p \<Longrightarrow> resolve \<rho> (queue_url_urlencoded p w) = []"
    by (simp add: queue_url_urlencoded_def)
  have link0: "\<not> document_queue p \<Longrightarrow>
      map_option (resolve \<rho>) (output_value s ''DocumentQueueLink'') =
              Some (''https://'' @ resolve \<rho> (current_region p)
                    @ ''.console.aws.amazon.com/sqs/v2/home?region=''
                    @ resolve \<rho> (current_region p) @ ''#/queues/'')"
    by (simp add: link none)
  show ?thesis
    apply (rule exI[of _ s], rule exI[of _ w])
    apply (intro conjI impI run link rep)
    apply (erule enc)
    apply (erule (1) dec)
    apply (erule none)
    apply (erule link0)
    done
qed

theorem queue_url_encoding_witness:
  "document_queue example_params
   \<and> CHR ''%'' \<notin> set (example_deployment (cid (sf_executions_start_throttle workflow_chain))
                          ''document_queue.queue_url'')
   \<and> \<not> document_queue no_queue_params
   \<and> (\<exists>s w. OpenSearchWorkflow example_params = Some (s, w)
        \<and> resolve example_deployment (queue_url_urlencoded example_params w) =
            ''https%3A%2F%2Fsqs.us-east-1.amazonaws.com%2F123456789012%2Fdocuments''
        \<and> unescape (resolve example_deployment (queue_url_urlencoded example_params w)) =
            ''https://sqs.us-east-1.amazonaws.com/123456789012/documents'')
   \<and> (\<exists>s w. OpenSearchWorkflow no_queue_params = Some (s, w)
        \<and> map_option (resolve example_deployment) (output_value s ''DocumentQueueLink'') =
            Some ''https://us-east-1.console.aws.amazon.com/sqs/v2/home?region=us-east-1#/queues/'')"
proof -
  have q: "document_queue example_params"
    by (simp add: example_params_def)
  have n: "\<not> document_queue no_queue_params"
    by (simp add: no_queue_params_def example_params_def)
  have r: "resolve example_deployment (current_region no_queue_params) = ''us-east-1''"
    by (simp add: no_queue_params_def example_params_def)
  have u: "example_deployment (cid (sf_executions_start_throttle w)) ''document_queue.queue_url'' =
      ''https://sqs.us-east-1.amazonaws.com/123456789012/documents''" for w
    by (simp add: example_deployment_def)
  have o: "CHR ''%'' \<notin> set ''https://sqs.us-east-1.amazonaws.com/123456789012/documents''"
    by simp
  have e: "escaped ''https://sqs.us-east-1.amazonaws.com/123456789012/documents'' =
      ''https%3A%2F%2Fsqs.us-east-1.amazonaws.com%2F123456789012%2Fdocuments''"
    by code_simp
  from queue_url_encoding[of example_params example_deployment]
  obtain s w where a: "OpenSearchWorkflow example_params = Some (s, w)"
    and b: "document_queue example_params \<longrightarrow>
          resolve example_deployment (queue_url_urlencoded example_params w) =
            escaped (example_deployment (cid (sf_executions_start_throttle w)) ''document_queue.queue_url'')
          \<and> (CHR ''%'' \<notin> set (example_deployment (cid (sf_executions_start_throttle w)) ''document_queue.queue_url'')
             \<longrightarrow> unescape (resolve example_deployment (queue_url_urlencoded example_params w)) =
                   example_deployment (cid (sf_executions_start_throttle w)) ''document_queue.queue_url'')"
    by blast
  from b q have b1: "resolve example_deployment (queue_url_urlencoded example_params w) =
            ''https%3A%2F%2Fsqs.us-east-1.amazonaws.com%2F123456789012%2Fdocuments''"
    unfolding u e by blast
  from b q o have b2: "unescape (resolve example_deployment (queue_url_urlencoded example_params w)) =
            ''https://sqs.us-east-1.amazonaws.com/123456789012/documents''"
    unfolding u by blast
  from queue_url_encoding[of no_queue_params example_deployment]
  obtain s' w' where a': "OpenSearchWorkflow no_queue_params = Some (s', w')"
    and c: "\<not> document_queue no_queue_params \<longrightarrow>
          resolve example_deployment (queue_url_urlencoded no_queue_params w') = []
          \<and> map_option (resolve example_deployment) (output_value s' ''DocumentQueueLink'') =
              Some (''https://'' @ resolve example_deployment (current_region no_queue_params)
                    @ ''.console.aws.amazon.com/sqs/v2/home?region=''
                    @ resolve example_deployment (current_region no_queue_params) @ ''#/queues/'')"
    by blast
  from c n have c1: "map_option (resolve example_deployment) (output_value s' ''DocumentQueueLink'') =
            Some ''https://us-east-1.console.aws.amazon.com/sqs/v2/home?region=us-east-1#/queues/''"
    unfolding r by simp
  have A: "\<exists>s w. OpenSearchWorkflow example_params = Some (s, w)
        \<and> resolve example_deployment (queue_url_urlencoded example_params w) =
            ''https%3A%2F%2Fsqs.us-east-1.amazonaws.com%2F123456789012%2Fdocuments''
        \<and> unescape (resolve example_deployment (queue_url_urlencoded example_params w)) =
            ''https://sqs.us-east-1.amazonaws.com/123456789012/documents''"
    using a b1 b2 by blast
  have B: "\<exists>s w. OpenSearchWorkflow no_queue_params = Some (s, w)
        \<and> map_option (resolve example_deployment) (output_value s ''DocumentQueueLink'') =
            Some ''https://us-east-1.console.aws.amazon.com/sqs/v2/home?region=us-east-1#/queues/''"
    using a' c1 by blast
  show ?thesis
    unfolding u using q n o A B by blast
qed

text \<open>
  C10. The stack has one bucket, the document bucket, created with
  \<^verbatim>\<open>auto_delete_objects=True\<close> and \<^verbatim>\<open>removal_policy=RemovalPolicy.DESTROY\<close>. It is the
  bucket of every construct that is given one: the splitter and the JSON conversion write
  under \<^verbatim>\<open>textract-output\<close>, the async extraction under \<^verbatim>\<open>textract-temp\<close>, the bulk
  generation under \<^verbatim>\<open>textract-opensearch-output\<close>; the event source of the throttle
  watches it under \<^verbatim>\<open>uploads\<close>, and the upload-location output points into it. So
  deleting the stack, whatever the storage holds at that moment, deletes the bucket and
  every object stored in it, and leaves the other buckets and their objects as they were.
\<close>

theorem document_bucket_removal:
  "\<exists>s w. OpenSearchWorkflow p = Some (s, w)
     \<and> of_class ''s3.Bucket'' s = [document_bucket]
     \<and> kwarg document_bucket ''auto_delete_objects'' = Some (B True)
     \<and> kwarg document_bucket ''removal_policy'' = Some (E ''RemovalPolicy.DESTROY'')
     \<and> concat (map (\<lambda>c. map (\<lambda>kv. (cid c, fst kv, snd kv))
                          (filter (\<lambda>kv. occurs ''bucket'' (fst kv)) (construct_keywords c)))
                   (constructs s)) =
         [(''DocumentSplitter'', ''s3_output_bucket'', S (bucket_name document_bucket)),
          (''TextractAsync'', ''s3_output_bucket'', S (bucket_name document_bucket)),
          (''TextractAsyncToJSON2'', ''s3_output_bucket'', S (bucket_name document_bucket)),
          (''GenerateOpenSearchBatch'', ''csv_s3_output_bucket'', S (bucket_name document_bucket))]
     \<and> kwarg document_splitter_task ''s3_output_prefix'' = Some (S (Lit ''textract-output''))
     \<and> kwarg textract_async_task ''s3_temp_output_prefix'' = Some (S (Lit ''textract-temp''))
     \<and> kwarg textract_async_to_json ''s3_output_prefix'' = Some (S (Lit ''textract-output''))
     \<and> kwarg generate_open_search_batch ''csv_s3_output_prefix'' =
         Some (S (Lit ''textract-opensearch-output''))
     \<and> kwarg (sf_executions_start_throttle w) ''event_source'' =
         Some (L [Obj ''eventsources.S3EventSource'' [R (cid document_bucket)]
                    [(''events'', L [E ''s3.EventType.OBJECT_CREATED'']),
                     (''filters'', L [Obj ''s3.NotificationKeyFilter'' []
                                        [(''prefix'', S (Lit ''uploads''))]])]])
     \<and> map_option (resolve \<rho>) (output_value s ''DocumentUploadLocation'') =
         Some (''s3://'' @ resolve \<rho> (bucket_name document_bucket) @ ''/uploads/'')
     \<and> delete_stack s st =
         \<lparr>buckets = removeAll (cid document_bucket) (buckets st),
          objects = filter (\<lambda>ob. fst ob \<noteq> cid document_bucket) (objects st)\<rparr>
     \<and> cid document_bucket \<notin> set (buckets (delete_stack s st))
     \<and> bucket_objects (cid document_bucket) (delete_stack s st) = []"
proof -
  obtain s w where run: "OpenSearchWorkflow p = Some (s, w)"
    using runs by blast
  note b = built[OF run]
  have oc: "of_class ''s3.Bucket'' s = [document_bucket]"
    by (simp add: of_class_def b cls_simps)
  have k1: "kwarg document_bucket ''auto_delete_objects'' = Some (B True)"
    by (simp add: kwarg_def document_bucket_def)
  have k2: "kwarg document_bucket ''removal_policy'' = Some (E ''RemovalPolicy.DESTROY'')"
    by (simp add: kwarg_def document_bucket_def)
  have bk: "concat (map (\<lambda>c. map (\<lambda>kv. (cid c, fst kv, snd kv))
                          (filter (\<lambda>kv. occurs ''bucket'' (fst kv)) (construct_keywords c)))
                   (constructs s)) =
         [(''DocumentSplitter'', ''s3_output_bucket'', S (bucket_name document_bucket)),
          (''TextractAsync'', ''s3_output_bucket'', S (bucket_name document_bucket)),
          (''TextractAsyncToJSON2'', ''s3_output_bucket'', S (bucket_name document_bucket)),
          (''GenerateOpenSearchBatch'', ''csv_s3_output_bucket'', S (bucket_name document_bucket))]"
    unfolding b(2) by (simp add: bucket_keywords cid_simps)
  have p1: "kwarg document_splitter_task ''s3_output_prefix'' = Some (S (Lit ''textract-output''))"
    by (simp add: kwarg_def document_splitter_task_def s3_output_prefix_def)
  have p2: "kwarg textract_async_task ''s3_temp_output_prefix'' = Some (S (Lit ''textract-temp''))"
    by (simp add: kwarg_def textract_async_task_def s3_temp_output_prefix_def)
  have p3: "kwarg textract_async_to_json ''s3_output_prefix'' = Some (S (Lit ''textract-output''))"
    by (simp add: kwarg_def textract_async_to_json_def s3_output_prefix_def)
  have p4: "kwarg generate_open_search_batch ''csv_s3_output_prefix'' =
         Some (S (Lit ''textract-opensearch-output''))"
    by (simp add: kwarg_def generate_open_search_batch_def s3_opensearch_output_prefix_def)
  have ev: "kwarg (sf_executions_start_throttle w) ''event_source'' =
         Some (L [Obj ''eventsources.S3EventSource'' [R (cid document_bucket)]
                    [(''events'', L [E ''s3.EventType.OBJECT_CREATED'']),
                     (''filters'', L [Obj ''s3.NotificationKeyFilter'' []
                                        [(''prefix'', S (Lit ''uploads''))]])]])"
    by (simp add: kwarg_def sf_executions_start_throttle_def s3_event_source_def
        s3_upload_prefix_def)
  have out: "map_option (resolve \<rho>) (output_value s ''DocumentUploadLocation'') =
         Some (''s3://'' @ resolve \<rho> (bucket_name document_bucket) @ ''/uploads/'')"
    by (simp add: output_values(2)[OF run] s3_upload_prefix_def)
  have del: "delete_stack s st =
         \<lparr>buckets = removeAll (cid document_bucket) (buckets st),
          objects = filter (\<lambda>ob. fst ob \<noteq> cid document_bucket) (objects st)\<rparr>"
    by (simp add: delete_stack_def oc delete_bucket_def k1 k2)
  have gone: "cid document_bucket \<notin> set (buckets (delete_stack s st))"
    by (simp add: del)
  have empty: "bucket_objects (cid document_bucket) (delete_stack s st) = []"
    by (simp add: del bucket_objects_def)
  show ?thesis
    by (rule exI[of _ s], rule exI[of _ w])
      (intro conjI run oc k1 k2 bk p1 p2 p3 p4 ev out del gone empty)
qed

theorem document_bucket_removal_witness:
  "bucket_objects (cid document_bucket) example_storage =
     [''uploads/doc.pdf'', ''textract-output/doc/splits/page-0.pdf'',
      ''textract-opensearch-output/doc.json'']
   \<and> (\<exists>s w. OpenSearchWorkflow example_params = Some (s, w)
        \<and> delete_stack s example_storage =
            \<lparr>buckets = [''AnotherBucket''], objects = [(''AnotherBucket'', ''report.csv'')]\<rparr>
        \<and> bucket_objects (cid document_bucket) (delete_stack s example_storage) = [])"
proof -
  have before: "bucket_objects (cid document_bucket) example_storage =
     [''uploads/doc.pdf'', ''textract-output/doc/splits/page-0.pdf'',
      ''textract-opensearch-output/doc.json'']"
    by (simp add: bucket_objects_def example_storage_def cid_simps)
  from document_bucket_removal[where p = example_params and st = example_storage]
  obtain s w where run: "OpenSearchWorkflow example_params = Some (s, w)"
    and del: "delete_stack s example_storage =
         \<lparr>buckets = removeAll (cid document_bucket) (buckets example_storage),
          objects = filter (\<lambda>ob. fst ob \<noteq> cid document_bucket) (objects example_storage)\<rparr>"
    and empty: "bucket_objects (cid document_bucket) (delete_stack s example_storage) = []"
    by blast
  have del': "delete_stack s example_storage =
      \<lparr>buckets = [''AnotherBucket''], objects = [(''AnotherBucket'', ''report.csv'')]\<rparr>"
    unfolding del by (simp add: example_storage_def cid_simps)
  have ex: "\<exists>s w. OpenSearchWorkflow example_params = Some (s, w)
        \<and> delete_stack s example_storage =
            \<lparr>buckets = [''AnotherBucket''], objects = [(''AnotherBucket'', ''report.csv'')]\<rparr>
        \<and> bucket_objects (cid document_bucket) (delete_stack s example_storage) = []"
    by (rule exI[of _ s], rule exI[of _ w]) (intro conjI run del' empty)
  show ?thesis
    by (intro conjI before ex)
qed

end
